theory Spec2Isabelle
  imports Main "HOL-Library.Word" "HOL-Library.Multiset"
begin

unbundle bit_operations_syntax

section \<open>Activity aggregation and dashboard composition of the CRM backend\<close>

text \<open>
  A shallow embedding of the user service of package \<^verbatim>\<open>services\<close> (\<^verbatim>\<open>GetUserStats\<close>,
  \<^verbatim>\<open>GetRecentActivities\<close>, \<^verbatim>\<open>GetDashboardData\<close> and their helpers) and of the model structs
  it reads.
  Go values are modelled as follows:
  \<^item> \<^verbatim>\<open>uint\<close> and \<^verbatim>\<open>int64\<close> are 64-bit words (arithmetic wraps, as in Go);
  \<^item> \<^verbatim>\<open>int\<close> is an \<open>int\<close>, and the one product the code computes (\<^verbatim>\<open>limit*2\<close>) has its
    64-bit wrap-around written out;
  \<^item> \<^verbatim>\<open>string\<close> is a list of bytes (\<open>string\<close>), so \<^verbatim>\<open>len\<close> is \<open>length\<close>;
  \<^item> \<^verbatim>\<open>time.Time\<close> is an instant, in nanoseconds, and \<^verbatim>\<open>time.Duration\<close> a number of
    nanoseconds;
  \<^item> the named string types (\<^verbatim>\<open>TaskStatus\<close>, \<^verbatim>\<open>ActivityAction\<close>, ...) are strings, and
    their constants are the literals of the source;
  \<^item> a pointer that may be nil is an \<open>option\<close>;
  \<^item> a function that returns \<^verbatim>\<open>(T, error)\<close>, or that can panic, returns \<open>error + T\<close>.
\<close>

subsection \<open>Basic types\<close>

type_synonym uint = "64 word"
type_synonym int64 = "64 word"
type_synonym Time = int
type_synonym Duration = int

datatype error =
    ErrInternalServer    \<comment> \<open>\<^verbatim>\<open>errors.ErrInternalServer\<close>\<close>
  | RepositoryError      \<comment> \<open>any error value returned by a repository\<close>
  | NilPointerPanic      \<comment> \<open>a method call on a nil interface value\<close>
  | SliceBoundsPanic     \<comment> \<open>a slice expression out of range\<close>

definition bind_res :: "error + 'a \<Rightarrow> ('a \<Rightarrow> error + 'b) \<Rightarrow> error + 'b" where
  "bind_res m f = (case m of Inl e \<Rightarrow> Inl e | Inr x \<Rightarrow> f x)"

definition Minute :: Duration where
  "Minute = 60 * 1000000000"

definition time_Add :: "Time \<Rightarrow> Duration \<Rightarrow> Time" where
  "time_Add t d = t + d"

definition time_After :: "Time \<Rightarrow> Time \<Rightarrow> bool" where
  "time_After t u = (u < t)"

text \<open>The 64-bit wrap-around of a Go \<^verbatim>\<open>int\<close> result.\<close>

definition wrap_int :: "int \<Rightarrow> int" where
  "wrap_int x = (x + 2 ^ 63) mod 2 ^ 64 - 2 ^ 63"

subsection \<open>Models (package models)\<close>

type_synonym ContactType = string
abbreviation ContactTypeClient :: ContactType where "ContactTypeClient \<equiv> ''CLIENT''"
abbreviation ContactTypeLead :: ContactType where "ContactTypeLead \<equiv> ''LEAD''"

type_synonym Priority = string
type_synonym TaskStatus = string
abbreviation TaskStatusPending :: TaskStatus where "TaskStatusPending \<equiv> ''PENDING''"
abbreviation TaskStatusCompleted :: TaskStatus where "TaskStatusCompleted \<equiv> ''COMPLETED''"

type_synonym ProjectStatus = string
abbreviation ProjectStatusInProgress :: ProjectStatus where "ProjectStatusInProgress \<equiv> ''IN_PROGRESS''"
abbreviation ProjectStatusCompleted :: ProjectStatus where "ProjectStatusCompleted \<equiv> ''COMPLETED''"
abbreviation ProjectStatusCancelled :: ProjectStatus where "ProjectStatusCancelled \<equiv> ''CANCELLED''"

type_synonym InteractionType = string

type_synonym ActivityType = string
abbreviation ActivityTypeTask :: ActivityType where "ActivityTypeTask \<equiv> ''TASK''"
abbreviation ActivityTypeProject :: ActivityType where "ActivityTypeProject \<equiv> ''PROJECT''"
abbreviation ActivityTypeContact :: ActivityType where "ActivityTypeContact \<equiv> ''CONTACT''"
abbreviation ActivityTypeInteraction :: ActivityType where "ActivityTypeInteraction \<equiv> ''INTERACTION''"

type_synonym ActivityAction = string
abbreviation ActionCreated :: ActivityAction where "ActionCreated \<equiv> ''CREATED''"
abbreviation ActionUpdated :: ActivityAction where "ActionUpdated \<equiv> ''UPDATED''"
abbreviation ActionCompleted :: ActivityAction where "ActionCompleted \<equiv> ''COMPLETED''"
abbreviation ActionDeleted :: ActivityAction where "ActionDeleted \<equiv> ''DELETED''"
abbreviation ActionStarted :: ActivityAction where "ActionStarted \<equiv> ''STARTED''"
abbreviation ActionCancelled :: ActivityAction where "ActionCancelled \<equiv> ''CANCELLED''"

text \<open>
  The structs keep the fields of the source except the gorm bookkeeping (\<^verbatim>\<open>DeletedAt\<close>) and
  the preloaded relations that the service never reads (\<^verbatim>\<open>User\<close>, and the slices of
  children of a contact or project).
\<close>

record Contact =
  ID :: uint
  Name :: string
  Email :: string
  Phone :: string
  Company :: string
  Position :: string
  Type :: ContactType
  Notes :: string
  UserID :: uint
  CreatedAt :: Time
  UpdatedAt :: Time

record Project =
  ID :: uint
  Name :: string
  Description :: string
  Status :: ProjectStatus
  UserID :: uint
  ClientID :: uint
  CreatedAt :: Time
  UpdatedAt :: Time
  Client :: Contact

record Task =
  ID :: uint
  Title :: string
  Description :: string
  DueDate :: "Time option"
  Priority :: Priority
  Status :: TaskStatus
  UserID :: uint
  ContactID :: "uint option"
  ProjectID :: "uint option"
  CreatedAt :: Time
  UpdatedAt :: Time
  Contact :: "Contact option"
  Project :: "Project option"

record Interaction =
  ID :: uint
  Type :: InteractionType
  Date :: Time
  Subject :: string
  Description :: string
  ContactID :: uint
  CreatedAt :: Time
  UpdatedAt :: Time
  Contact :: Contact

record UserActivity =
  ID :: uint
  Type :: ActivityType
  Action :: ActivityAction
  Title :: string
  Detail :: string
  ItemID :: uint
  CreatedAt :: Time
  UpdatedAt :: Time
  RelatedID :: "uint option"
  RelatedName :: "string option"

subsection \<open>Deriving activities from a task\<close>

text \<open>
  \<^verbatim>\<open>truncateString\<close>: \<^verbatim>\<open>s[:maxLength-3]\<close> panics when \<^verbatim>\<open>maxLength-3\<close> is negative (it
  cannot exceed \<^verbatim>\<open>len(s)\<close> on that branch).
\<close>

definition truncateString :: "string \<Rightarrow> int \<Rightarrow> error + string" where
  "truncateString s maxLength =
     (if int (length s) \<le> maxLength then Inr s
      else if maxLength - 3 < 0 then Inl SliceBoundsPanic
      else Inr (take (nat (maxLength - 3)) s @ ''...''))"

definition createActivityFromTask :: "Task \<Rightarrow> error + UserActivity" where
  "createActivityFromTask task =
     (let action = (if Task.Status task = TaskStatusCompleted then ActionCompleted
                    else ActionCreated);
          title = (if Task.Title task = [] then ''Tarefa sem t'' @ [CHR 0xC3, CHR 0xAD] @ ''tulo''
                   else Task.Title task)
      in bind_res (truncateString (Task.Description task) 100) (\<lambda>detail.
         let activity = \<lparr>UserActivity.ID = Task.ID task,
                         Type = ActivityTypeTask,
                         Action = action,
                         Title = title,
                         Detail = detail,
                         ItemID = Task.ID task,
                         CreatedAt = Task.CreatedAt task,
                         UpdatedAt = Task.UpdatedAt task,
                         RelatedID = None,
                         RelatedName = None\<rparr>
         in Inr
           (if Task.ContactID task \<noteq> None \<and> Task.Contact task \<noteq> None
                 \<and> Contact.Name (the (Task.Contact task)) \<noteq> []
            then activity\<lparr>RelatedID := Task.ContactID task,
                          RelatedName := Some (Contact.Name (the (Task.Contact task)))\<rparr>
            else if Task.ProjectID task \<noteq> None \<and> Task.Project task \<noteq> None
                 \<and> Project.Name (the (Task.Project task)) \<noteq> []
            then activity\<lparr>RelatedID := Task.ProjectID task,
                          RelatedName := Some (Project.Name (the (Task.Project task)))\<rparr>
            else activity)))"

text \<open>
  The body of the loop over the tasks in \<^verbatim>\<open>GetRecentActivities\<close>: it appends to
  \<^verbatim>\<open>activities\<close> the events derived from one task.
\<close>

definition appendTaskActivities :: "Task \<Rightarrow> UserActivity list \<Rightarrow> error + UserActivity list" where
  "appendTaskActivities task activities =
     bind_res (createActivityFromTask task) (\<lambda>created.
       let createActivity = created\<lparr>Action := ActionCreated\<rparr>;
           activities = activities @ [createActivity];
           activities =
             (if time_After (Task.UpdatedAt task) (time_Add (Task.CreatedAt task) Minute)
              then activities @ [createActivity\<lparr>Action := ActionUpdated,
                                                CreatedAt := Task.UpdatedAt task,
                                                UpdatedAt := Task.UpdatedAt task\<rparr>]
              else activities);
           activities =
             (if Task.Status task = TaskStatusCompleted
              then activities @ [createActivity\<lparr>Action := ActionCompleted,
                                                CreatedAt := Task.UpdatedAt task,
                                                UpdatedAt := Task.UpdatedAt task\<rparr>]
              else activities)
       in Inr activities)"

fun tasksLoop :: "Task list \<Rightarrow> UserActivity list \<Rightarrow> error + UserActivity list" where
  "tasksLoop [] activities = Inr activities"
| "tasksLoop (task # tasks) activities =
     bind_res (appendTaskActivities task activities) (tasksLoop tasks)"

subsection \<open>Deriving activities from interactions, projects and contacts\<close>

definition createActivityFromInteraction :: "Interaction \<Rightarrow> error + UserActivity" where
  "createActivityFromInteraction interaction =
     (let title = (if Interaction.Subject interaction = []
                   then ''Intera'' @ [CHR 0xC3, CHR 0xA7, CHR 0xC3, CHR 0xA3] @ ''o sem assunto''
                   else Interaction.Subject interaction);
          contactID = Interaction.ContactID interaction
      in bind_res (truncateString (Interaction.Description interaction) 100) (\<lambda>detail.
         let activity = \<lparr>UserActivity.ID = Interaction.ID interaction,
                         Type = ActivityTypeInteraction,
                         Action = ActionCreated,
                         Title = title,
                         Detail = detail,
                         ItemID = Interaction.ID interaction,
                         CreatedAt = Interaction.CreatedAt interaction,
                         UpdatedAt = Interaction.UpdatedAt interaction,
                         RelatedID = Some contactID,
                         RelatedName = None\<rparr>
         in Inr
           (if Contact.Name (Interaction.Contact interaction) \<noteq> []
            then activity\<lparr>RelatedName := Some (Contact.Name (Interaction.Contact interaction))\<rparr>
            else activity)))"

definition createActivityFromProject :: "Project \<Rightarrow> error + UserActivity" where
  "createActivityFromProject project =
     (let action = (if Project.Status project = ProjectStatusInProgress then ActionStarted
                    else if Project.Status project = ProjectStatusCompleted then ActionCompleted
                    else if Project.Status project = ProjectStatusCancelled then ActionCancelled
                    else ActionCreated);
          title = (if Project.Name project = [] then ''Projeto sem nome''
                   else Project.Name project)
      in bind_res (truncateString (Project.Description project) 100) (\<lambda>detail.
         let activity = \<lparr>UserActivity.ID = Project.ID project,
                         Type = ActivityTypeProject,
                         Action = action,
                         Title = title,
                         Detail = detail,
                         ItemID = Project.ID project,
                         CreatedAt = Project.CreatedAt project,
                         UpdatedAt = Project.UpdatedAt project,
                         RelatedID = None,
                         RelatedName = None\<rparr>
         in Inr
           (if Project.ClientID project \<noteq> 0 \<and> Contact.Name (Project.Client project) \<noteq> []
            then activity\<lparr>RelatedID := Some (Project.ClientID project),
                          RelatedName := Some (Contact.Name (Project.Client project))\<rparr>
            else activity)))"

definition createActivityFromContact :: "Contact \<Rightarrow> error + UserActivity" where
  "createActivityFromContact contact =
     (let title = (if Contact.Name contact = [] then ''Contato sem nome''
                   else Contact.Name contact)
      in bind_res (truncateString (Contact.Notes contact) 100) (\<lambda>detail.
         Inr \<lparr>UserActivity.ID = Contact.ID contact,
              Type = ActivityTypeContact,
              Action = ActionCreated,
              Title = title,
              Detail = detail,
              ItemID = Contact.ID contact,
              CreatedAt = Contact.CreatedAt contact,
              UpdatedAt = Contact.UpdatedAt contact,
              RelatedID = None,
              RelatedName = None\<rparr>))"

text \<open>The bodies of the other three loops of \<^verbatim>\<open>GetRecentActivities\<close>, and the loops.\<close>

definition appendInteractionActivities ::
  "Interaction \<Rightarrow> UserActivity list \<Rightarrow> error + UserActivity list" where
  "appendInteractionActivities interaction activities =
     bind_res (createActivityFromInteraction interaction) (\<lambda>createActivity.
       let activities = activities @ [createActivity];
           activities =
             (if time_After (Interaction.UpdatedAt interaction)
                            (time_Add (Interaction.CreatedAt interaction) Minute)
              then activities @ [createActivity\<lparr>Action := ActionUpdated,
                                                CreatedAt := Interaction.UpdatedAt interaction,
                                                UpdatedAt := Interaction.UpdatedAt interaction\<rparr>]
              else activities)
       in Inr activities)"

fun interactionsLoop :: "Interaction list \<Rightarrow> UserActivity list \<Rightarrow> error + UserActivity list" where
  "interactionsLoop [] activities = Inr activities"
| "interactionsLoop (interaction # interactions) activities =
     bind_res (appendInteractionActivities interaction activities) (interactionsLoop interactions)"

definition appendProjectActivities ::
  "Project \<Rightarrow> UserActivity list \<Rightarrow> error + UserActivity list" where
  "appendProjectActivities project activities =
     bind_res (createActivityFromProject project) (\<lambda>created.
       let createActivity = created\<lparr>Action := ActionCreated\<rparr>;
           activities = activities @ [createActivity];
           activities =
             (if time_After (Project.UpdatedAt project) (time_Add (Project.CreatedAt project) Minute)
              then
                let updateActivity = createActivity;
                    updateActivity =
                      (if Project.Status project = ProjectStatusInProgress
                       then updateActivity\<lparr>Action := ActionStarted\<rparr>
                       else if Project.Status project = ProjectStatusCompleted
                       then updateActivity\<lparr>Action := ActionCompleted\<rparr>
                       else if Project.Status project = ProjectStatusCancelled
                       then updateActivity\<lparr>Action := ActionCancelled\<rparr>
                       else updateActivity\<lparr>Action := ActionUpdated\<rparr>)
                in activities @ [updateActivity\<lparr>CreatedAt := Project.UpdatedAt project,
                                                  UpdatedAt := Project.UpdatedAt project\<rparr>]
              else activities)
       in Inr activities)"

fun projectsLoop :: "Project list \<Rightarrow> UserActivity list \<Rightarrow> error + UserActivity list" where
  "projectsLoop [] activities = Inr activities"
| "projectsLoop (project # projects) activities =
     bind_res (appendProjectActivities project activities) (projectsLoop projects)"

definition appendContactActivities ::
  "Contact \<Rightarrow> UserActivity list \<Rightarrow> error + UserActivity list" where
  "appendContactActivities contact activities =
     bind_res (createActivityFromContact contact) (\<lambda>createActivity.
       let activities = activities @ [createActivity];
           activities =
             (if time_After (Contact.UpdatedAt contact) (time_Add (Contact.CreatedAt contact) Minute)
              then activities @ [createActivity\<lparr>Action := ActionUpdated,
                                                CreatedAt := Contact.UpdatedAt contact,
                                                UpdatedAt := Contact.UpdatedAt contact\<rparr>]
              else activities)
       in Inr activities)"

fun contactsLoop :: "Contact list \<Rightarrow> UserActivity list \<Rightarrow> error + UserActivity list" where
  "contactsLoop [] activities = Inr activities"
| "contactsLoop (contact # contacts) activities =
     bind_res (appendContactActivities contact activities) (contactsLoop contacts)"

subsection \<open>Repositories and the service\<close>

record ContactListFilter =
  Type :: ContactType
  Search :: string
  Limit :: int
  Offset :: int

record TaskListFilter =
  Status :: TaskStatus
  Priority :: Priority
  ContactID :: "uint option"
  ProjectID :: "uint option"
  DueBefore :: "Time option"
  DueAfter :: "Time option"
  Limit :: int
  Offset :: int

record ProjectListFilter =
  Status :: ProjectStatus
  ClientID :: "uint option"
  Limit :: int
  Offset :: int

record InteractionListFilter =
  Type :: InteractionType
  DateFrom :: "Time option"
  DateTo :: "Time option"
  ContactID :: uint
  Limit :: int
  Offset :: int

text \<open>The zero values of the filter structs (\<^verbatim>\<open>&models.TaskListFilter{}\<close> and so on).\<close>

definition ContactListFilter_zero :: ContactListFilter where
  "ContactListFilter_zero =
     \<lparr>ContactListFilter.Type = [], Search = [], Limit = 0, Offset = 0\<rparr>"

definition TaskListFilter_zero :: TaskListFilter where
  "TaskListFilter_zero =
     \<lparr>TaskListFilter.Status = [], Priority = [], ContactID = None, ProjectID = None,
      DueBefore = None, DueAfter = None, Limit = 0, Offset = 0\<rparr>"

definition ProjectListFilter_zero :: ProjectListFilter where
  "ProjectListFilter_zero =
     \<lparr>ProjectListFilter.Status = [], ClientID = None, Limit = 0, Offset = 0\<rparr>"

definition InteractionListFilter_zero :: InteractionListFilter where
  "InteractionListFilter_zero =
     \<lparr>InteractionListFilter.Type = [], DateFrom = None, DateTo = None, ContactID = 0,
      Limit = 0, Offset = 0\<rparr>"

text \<open>
  The repositories are Go interfaces: the service only calls their methods. A repository
  is a record of the methods the service calls, each a function of its arguments that
  returns the rows or an error.
\<close>

record ContactRepository =
  GetByUserID :: "uint \<Rightarrow> ContactListFilter \<Rightarrow> error + Contact list"
  CountByUserID :: "uint \<Rightarrow> error + int64"
  CountByType :: "uint \<Rightarrow> ContactType \<Rightarrow> error + int64"

record TaskRepository =
  GetByUserID :: "uint \<Rightarrow> TaskListFilter \<Rightarrow> error + Task list"
  CountByUserID :: "uint \<Rightarrow> error + int64"
  CountPendingByUserID :: "uint \<Rightarrow> error + int64"
  CountOverdueByUserID :: "uint \<Rightarrow> error + int64"

record ProjectRepository =
  GetByUserID :: "uint \<Rightarrow> ProjectListFilter \<Rightarrow> error + Project list"
  CountByUserID :: "uint \<Rightarrow> error + int64"
  CountByStatus :: "uint \<Rightarrow> ProjectStatus \<Rightarrow> error + int64"

record InteractionRepository =
  GetByUserID :: "uint \<Rightarrow> InteractionListFilter \<Rightarrow> error + Interaction list"
  GetRecentByUserID :: "uint \<Rightarrow> int \<Rightarrow> int \<Rightarrow> error + Interaction list"

text \<open>A repository field of the service may hold a nil interface value.\<close>

record userService =
  contactRepo :: "ContactRepository option"
  taskRepo :: "TaskRepository option"
  projectRepo :: "ProjectRepository option"
  interactionRepo :: "InteractionRepository option"

text \<open>Calling a method on a nil interface value panics.\<close>

definition receiver :: "'r option \<Rightarrow> error + 'r" where
  "receiver r = (case r of None \<Rightarrow> Inl NilPointerPanic | Some x \<Rightarrow> Inr x)"

text \<open>\<^verbatim>\<open>if err != nil { return nil, errors.ErrInternalServer }\<close>\<close>

definition orErrInternalServer :: "error + 'a \<Rightarrow> error + 'a" where
  "orErrInternalServer r = (case r of Inl err \<Rightarrow> Inl ErrInternalServer | Inr x \<Rightarrow> Inr x)"

subsection \<open>GetUserStats\<close>

record UserStats =
  TotalContacts :: int64
  TotalClients :: int64
  TotalLeads :: int64
  TotalTasks :: int64
  PendingTasks :: int64
  CompletedTasks :: int64
  OverdueTasks :: int64
  TotalProjects :: int64
  ActiveProjects :: int64
  CompletedProjects :: int64
  TotalInteractions :: int64
  RecentInteractions :: int64

definition UserStats_zero :: UserStats where
  "UserStats_zero =
     \<lparr>TotalContacts = 0, TotalClients = 0, TotalLeads = 0, TotalTasks = 0, PendingTasks = 0,
      CompletedTasks = 0, OverdueTasks = 0, TotalProjects = 0, ActiveProjects = 0,
      CompletedProjects = 0, TotalInteractions = 0, UserStats.RecentInteractions = 0\<rparr>"

text \<open>
  The four blocks of \<^verbatim>\<open>GetUserStats\<close>, one per repository, each guarded by
  \<^verbatim>\<open>if s.<repo> != nil\<close>: a block takes the statistics filled so far and returns them
  updated, or the error of its early return.
\<close>

definition statsContacts :: "userService \<Rightarrow> uint \<Rightarrow> UserStats \<Rightarrow> error + UserStats" where
  "statsContacts s userID stats =
     (case contactRepo s of
        None \<Rightarrow> Inr stats
      | Some repo \<Rightarrow>
          bind_res (orErrInternalServer (ContactRepository.CountByUserID repo userID))
            (\<lambda>totalContacts.
          let stats = stats\<lparr>TotalContacts := totalContacts\<rparr> in
          bind_res (orErrInternalServer
                      (ContactRepository.CountByType repo userID ContactTypeClient))
            (\<lambda>clients.
          let stats = stats\<lparr>TotalClients := clients\<rparr> in
          bind_res (orErrInternalServer
                      (ContactRepository.CountByType repo userID ContactTypeLead))
            (\<lambda>leads.
          Inr (stats\<lparr>TotalLeads := leads\<rparr>)))))"

definition statsTasks :: "userService \<Rightarrow> uint \<Rightarrow> UserStats \<Rightarrow> error + UserStats" where
  "statsTasks s userID stats =
     (case taskRepo s of
        None \<Rightarrow> Inr stats
      | Some repo \<Rightarrow>
          bind_res (orErrInternalServer (TaskRepository.CountByUserID repo userID))
            (\<lambda>totalTasks.
          let stats = stats\<lparr>TotalTasks := totalTasks\<rparr> in
          bind_res (orErrInternalServer (TaskRepository.CountPendingByUserID repo userID))
            (\<lambda>pendingTasks.
          let stats = stats\<lparr>PendingTasks := pendingTasks\<rparr>;
              stats = stats\<lparr>CompletedTasks := totalTasks - pendingTasks\<rparr>
          in Inr
            (case TaskRepository.CountOverdueByUserID repo userID of
               Inl err \<Rightarrow> stats\<lparr>OverdueTasks := 0\<rparr>
             | Inr overdueTasks \<Rightarrow> stats\<lparr>OverdueTasks := overdueTasks\<rparr>))))"

definition statsProjects :: "userService \<Rightarrow> uint \<Rightarrow> UserStats \<Rightarrow> error + UserStats" where
  "statsProjects s userID stats =
     (case projectRepo s of
        None \<Rightarrow> Inr stats
      | Some repo \<Rightarrow>
          bind_res (orErrInternalServer (ProjectRepository.CountByUserID repo userID))
            (\<lambda>totalProjects.
          let stats = stats\<lparr>TotalProjects := totalProjects\<rparr> in
          bind_res (orErrInternalServer
                      (ProjectRepository.CountByStatus repo userID ProjectStatusInProgress))
            (\<lambda>activeProjects.
          let stats = stats\<lparr>ActiveProjects := activeProjects\<rparr> in
          bind_res (orErrInternalServer
                      (ProjectRepository.CountByStatus repo userID ProjectStatusCompleted))
            (\<lambda>completedProjects.
          Inr (stats\<lparr>CompletedProjects := completedProjects\<rparr>)))))"

definition statsInteractions :: "userService \<Rightarrow> uint \<Rightarrow> UserStats \<Rightarrow> error + UserStats" where
  "statsInteractions s userID stats =
     (case interactionRepo s of
        None \<Rightarrow> Inr stats
      | Some repo \<Rightarrow>
          bind_res (orErrInternalServer
                      (InteractionRepository.GetByUserID repo userID InteractionListFilter_zero))
            (\<lambda>interactions.
          let stats = stats\<lparr>TotalInteractions := of_nat (length interactions)\<rparr>
          in Inr
            (case InteractionRepository.GetRecentByUserID repo userID 7 100 of
               Inl err \<Rightarrow> stats\<lparr>UserStats.RecentInteractions := 0\<rparr>
             | Inr recentInteractions \<Rightarrow>
                 stats\<lparr>UserStats.RecentInteractions := of_nat (length recentInteractions)\<rparr>)))"

definition GetUserStats :: "userService \<Rightarrow> uint \<Rightarrow> error + UserStats" where
  "GetUserStats s userID =
     (let stats = UserStats_zero in
      bind_res (statsContacts s userID stats) (\<lambda>stats.
      bind_res (statsTasks s userID stats) (\<lambda>stats.
      bind_res (statsProjects s userID stats) (\<lambda>stats.
      statsInteractions s userID stats))))"

subsection \<open>GetRecentActivities\<close>

record RecentActivityResponse =
  Activities :: "UserActivity list"
  Count :: int

text \<open>
  \<^verbatim>\<open>sortActivitiesByDate\<close> calls \<^verbatim>\<open>sort.Slice\<close> of Go's standard library, which is not part
  of this repository: it is the parameter \<open>sort_Slice\<close>, which takes the comparison on the
  elements (the closure \<^verbatim>\<open>less\<close> reads \<^verbatim>\<open>activities[i]\<close> and \<^verbatim>\<open>activities[j]\<close>) and the slice,
  and returns the slice as sorted in place.
\<close>

type_synonym 'a sort_Slice = "('a \<Rightarrow> 'a \<Rightarrow> bool) \<Rightarrow> 'a list \<Rightarrow> 'a list"

definition sortActivitiesByDate ::
  "UserActivity sort_Slice \<Rightarrow> UserActivity list \<Rightarrow> UserActivity list" where
  "sortActivitiesByDate sort_Slice activities =
     sort_Slice (\<lambda>ai aj. time_After (UserActivity.CreatedAt ai) (UserActivity.CreatedAt aj))
       activities"

definition GetRecentActivities ::
  "UserActivity sort_Slice \<Rightarrow> userService \<Rightarrow> uint \<Rightarrow> int \<Rightarrow> error + RecentActivityResponse" where
  "GetRecentActivities sort_Slice s userID limit0 =
     (let limit = (if limit0 \<le> 0 then 20 else limit0);
          activities = []
      in
      bind_res (receiver (interactionRepo s)) (\<lambda>repo.
      bind_res (orErrInternalServer
                  (InteractionRepository.GetRecentByUserID repo userID 30 (wrap_int (limit * 2))))
        (\<lambda>interactions.
      bind_res (interactionsLoop interactions activities) (\<lambda>activities.
      let taskFilter = TaskListFilter_zero\<lparr>TaskListFilter.Limit := wrap_int (limit * 2)\<rparr> in
      bind_res (receiver (taskRepo s)) (\<lambda>repo.
      bind_res (orErrInternalServer (TaskRepository.GetByUserID repo userID taskFilter))
        (\<lambda>tasks.
      bind_res (tasksLoop tasks activities) (\<lambda>activities.
      let projectFilter =
            ProjectListFilter_zero\<lparr>ProjectListFilter.Limit := wrap_int (limit * 2)\<rparr> in
      bind_res (receiver (projectRepo s)) (\<lambda>repo.
      bind_res (orErrInternalServer (ProjectRepository.GetByUserID repo userID projectFilter))
        (\<lambda>projects.
      bind_res (projectsLoop projects activities) (\<lambda>activities.
      let contactFilter =
            ContactListFilter_zero\<lparr>ContactListFilter.Limit := wrap_int (limit * 2)\<rparr> in
      bind_res (receiver (contactRepo s)) (\<lambda>repo.
      bind_res (orErrInternalServer (ContactRepository.GetByUserID repo userID contactFilter))
        (\<lambda>contacts.
      bind_res (contactsLoop contacts activities) (\<lambda>activities.
      let activities = sortActivitiesByDate sort_Slice activities;
          activities = (if int (length activities) > limit then take (nat limit) activities
                        else activities)
      in Inr \<lparr>Activities = activities, Count = int (length activities)\<rparr>)))))))))))))"

subsection \<open>GetDashboardData\<close>

record DashboardProject =
  ID :: uint
  Name :: string
  Status :: ProjectStatus
  ClientName :: string
  CreatedAt :: Time

record DashboardInteraction =
  ID :: uint
  Type :: InteractionType
  Subject :: string
  ContactName :: string
  Date :: Time

record DashboardTask =
  ID :: uint
  Title :: string
  Priority :: Priority
  DueDate :: "Time option"
  ContactName :: string
  ProjectName :: string

record DashboardContact =
  ID :: uint
  Name :: string
  Email :: string
  Type :: ContactType
  Company :: string
  CreatedAt :: Time

record DashboardData =
  Stats :: UserStats
  RecentActivities :: "UserActivity list"
  RecentProjects :: "DashboardProject list"
  RecentInteractions :: "DashboardInteraction list"
  RecentPendingTasks :: "DashboardTask list"
  RecentContacts :: "DashboardContact list"

text \<open>The projections that the four loops of \<^verbatim>\<open>GetDashboardData\<close> append, one per row.\<close>

definition dashboardInteraction :: "Interaction \<Rightarrow> DashboardInteraction" where
  "dashboardInteraction interaction =
     \<lparr>DashboardInteraction.ID = Interaction.ID interaction,
      Type = Interaction.Type interaction,
      Subject = Interaction.Subject interaction,
      ContactName = Contact.Name (Interaction.Contact interaction),
      Date = Interaction.Date interaction\<rparr>"

definition dashboardProject :: "Project \<Rightarrow> DashboardProject" where
  "dashboardProject project =
     \<lparr>DashboardProject.ID = Project.ID project,
      Name = Project.Name project,
      Status = Project.Status project,
      ClientName = Contact.Name (Project.Client project),
      CreatedAt = Project.CreatedAt project\<rparr>"

definition dashboardTask :: "Task \<Rightarrow> DashboardTask" where
  "dashboardTask task =
     (let dashboardTask = \<lparr>DashboardTask.ID = Task.ID task,
                            Title = Task.Title task,
                            Priority = Task.Priority task,
                            DueDate = Task.DueDate task,
                            ContactName = [],
                            ProjectName = []\<rparr>;
          dashboardTask =
            (case Task.Contact task of
               None \<Rightarrow> dashboardTask
             | Some c \<Rightarrow> dashboardTask\<lparr>DashboardTask.ContactName := Contact.Name c\<rparr>);
          dashboardTask =
            (case Task.Project task of
               None \<Rightarrow> dashboardTask
             | Some p \<Rightarrow> dashboardTask\<lparr>ProjectName := Project.Name p\<rparr>)
      in dashboardTask)"

definition dashboardContact :: "Contact \<Rightarrow> DashboardContact" where
  "dashboardContact contact =
     \<lparr>DashboardContact.ID = Contact.ID contact,
      Name = Contact.Name contact,
      Email = Contact.Email contact,
      Type = Contact.Type contact,
      Company = Contact.Company contact,
      CreatedAt = Contact.CreatedAt contact\<rparr>"

definition GetDashboardData ::
  "UserActivity sort_Slice \<Rightarrow> userService \<Rightarrow> uint \<Rightarrow> error + DashboardData" where
  "GetDashboardData sort_Slice s userID =
     bind_res (GetUserStats s userID) (\<lambda>stats.
     bind_res (GetRecentActivities sort_Slice s userID 10) (\<lambda>recentActivitiesResponse.
     let dashboardData =
           \<lparr>Stats = stats,
            RecentActivities = Activities recentActivitiesResponse,
            RecentProjects = [],
            RecentInteractions = [],
            RecentPendingTasks = [],
            RecentContacts = []\<rparr>;
         dashboardData =
           (case interactionRepo s of
              None \<Rightarrow> dashboardData
            | Some repo \<Rightarrow>
                let recentFilter =
                      InteractionListFilter_zero\<lparr>InteractionListFilter.Limit := 5\<rparr> in
                (case InteractionRepository.GetByUserID repo userID recentFilter of
                   Inl err \<Rightarrow> dashboardData
                 | Inr recentInteractions \<Rightarrow>
                     dashboardData\<lparr>RecentInteractions :=
                       DashboardData.RecentInteractions dashboardData
                         @ map dashboardInteraction recentInteractions\<rparr>));
         dashboardData =
           (case projectRepo s of
              None \<Rightarrow> dashboardData
            | Some repo \<Rightarrow>
                let activeFilter =
                      ProjectListFilter_zero\<lparr>ProjectListFilter.Status := ''IN_PROGRESS'',
                                             ProjectListFilter.Limit := 5\<rparr> in
                (case ProjectRepository.GetByUserID repo userID activeFilter of
                   Inl err \<Rightarrow> dashboardData
                 | Inr activeProjects \<Rightarrow>
                     dashboardData\<lparr>RecentProjects :=
                       RecentProjects dashboardData @ map dashboardProject activeProjects\<rparr>));
         dashboardData =
           (case taskRepo s of
              None \<Rightarrow> dashboardData
            | Some repo \<Rightarrow>
                let pendingFilter =
                      TaskListFilter_zero\<lparr>TaskListFilter.Status := TaskStatusPending,
                                          TaskListFilter.Limit := 5\<rparr> in
                (case TaskRepository.GetByUserID repo userID pendingFilter of
                   Inl err \<Rightarrow> dashboardData
                 | Inr pendingTasks \<Rightarrow>
                     dashboardData\<lparr>RecentPendingTasks :=
                       RecentPendingTasks dashboardData @ map dashboardTask pendingTasks\<rparr>));
         dashboardData =
           (case contactRepo s of
              None \<Rightarrow> dashboardData
            | Some repo \<Rightarrow>
                let recentContactFilter =
                      ContactListFilter_zero\<lparr>ContactListFilter.Limit := 5\<rparr> in
                (case ContactRepository.GetByUserID repo userID recentContactFilter of
                   Inl err \<Rightarrow> dashboardData
                 | Inr contacts \<Rightarrow>
                     dashboardData\<lparr>RecentContacts :=
                       RecentContacts dashboardData @ map dashboardContact contacts\<rparr>))
     in Inr dashboardData))"

section \<open>Specification predicates\<close>

text \<open>
  The queries of \<^verbatim>\<open>GetUserStats\<close> whose error makes it return early, per repository
  (a nil repository is skipped), and the two counters that fall back to zero.
\<close>

definition contactQueriesSucceed :: "userService \<Rightarrow> uint \<Rightarrow> bool" where
  "contactQueriesSucceed s userID =
     (case contactRepo s of
        None \<Rightarrow> True
      | Some repo \<Rightarrow>
          \<not> isl (ContactRepository.CountByUserID repo userID) \<and>
          \<not> isl (ContactRepository.CountByType repo userID ContactTypeClient) \<and>
          \<not> isl (ContactRepository.CountByType repo userID ContactTypeLead))"

definition taskQueriesSucceed :: "userService \<Rightarrow> uint \<Rightarrow> bool" where
  "taskQueriesSucceed s userID =
     (case taskRepo s of
        None \<Rightarrow> True
      | Some repo \<Rightarrow>
          \<not> isl (TaskRepository.CountByUserID repo userID) \<and>
          \<not> isl (TaskRepository.CountPendingByUserID repo userID))"

definition projectQueriesSucceed :: "userService \<Rightarrow> uint \<Rightarrow> bool" where
  "projectQueriesSucceed s userID =
     (case projectRepo s of
        None \<Rightarrow> True
      | Some repo \<Rightarrow>
          \<not> isl (ProjectRepository.CountByUserID repo userID) \<and>
          \<not> isl (ProjectRepository.CountByStatus repo userID ProjectStatusInProgress) \<and>
          \<not> isl (ProjectRepository.CountByStatus repo userID ProjectStatusCompleted))"

definition interactionQueriesSucceed :: "userService \<Rightarrow> uint \<Rightarrow> bool" where
  "interactionQueriesSucceed s userID =
     (case interactionRepo s of
        None \<Rightarrow> True
      | Some repo \<Rightarrow>
          \<not> isl (InteractionRepository.GetByUserID repo userID InteractionListFilter_zero))"

definition statsQueriesSucceed :: "userService \<Rightarrow> uint \<Rightarrow> bool" where
  "statsQueriesSucceed s userID =
     (contactQueriesSucceed s userID \<and> taskQueriesSucceed s userID \<and>
      projectQueriesSucceed s userID \<and> interactionQueriesSucceed s userID)"

definition overdueOrZero :: "userService \<Rightarrow> uint \<Rightarrow> int64" where
  "overdueOrZero s userID =
     (case taskRepo s of
        None \<Rightarrow> 0
      | Some repo \<Rightarrow>
          (case TaskRepository.CountOverdueByUserID repo userID of
             Inl err \<Rightarrow> 0 | Inr n \<Rightarrow> n))"

definition recentOrZero :: "userService \<Rightarrow> uint \<Rightarrow> int64" where
  "recentOrZero s userID =
     (case interactionRepo s of
        None \<Rightarrow> 0
      | Some repo \<Rightarrow>
          (case InteractionRepository.GetRecentByUserID repo userID 7 100 of
             Inl err \<Rightarrow> 0 | Inr ys \<Rightarrow> of_nat (length ys)))"

text \<open>
  The contract of \<^verbatim>\<open>sort.Slice\<close>, from the documentation of package \<^verbatim>\<open>sort\<close>: given a
  \<^verbatim>\<open>less\<close> that is a strict weak ordering ("a transitive ordering"), the slice is
  rearranged so that no element is less than one before it. Nothing is promised about the
  order of elements that compare equal ("the sort is not guaranteed to be stable").
\<close>

definition strict_weak_ordering :: "('a \<Rightarrow> 'a \<Rightarrow> bool) \<Rightarrow> bool" where
  "strict_weak_ordering lt =
     ((\<forall>a. \<not> lt a a) \<and>
      (\<forall>a b c. lt a b \<and> lt b c \<longrightarrow> lt a c) \<and>
      (\<forall>a b c. \<not> lt a b \<and> \<not> lt b c \<longrightarrow> \<not> lt a c))"

definition sort_Slice_contract :: "'a sort_Slice \<Rightarrow> bool" where
  "sort_Slice_contract sort_Slice =
     (\<forall>lt xs. strict_weak_ordering lt \<longrightarrow>
        mset (sort_Slice lt xs) = mset xs \<and>
        sorted_wrt (\<lambda>a b. \<not> lt b a) (sort_Slice lt xs))"

text \<open>
  A sort that meets the contract: insertion sort, each element in turn placed before the
  first element that it is less than. (On a slice of at most 12 elements \<^verbatim>\<open>sort.Slice\<close> is
  an insertion sort too, \<^verbatim>\<open>insertionSort_func\<close> below.)
\<close>

fun insert_by :: "('a \<Rightarrow> 'a \<Rightarrow> bool) \<Rightarrow> 'a \<Rightarrow> 'a list \<Rightarrow> 'a list" where
  "insert_by lt x [] = [x]"
| "insert_by lt x (y # ys) = (if lt x y then x # y # ys else y # insert_by lt x ys)"

definition insertionSort :: "'a sort_Slice" where
  "insertionSort lt xs = foldl (\<lambda>sorted x. insert_by lt x sorted) [] xs"

text \<open>The owner has no record in any of the four sources.\<close>

definition noRecords :: "userService \<Rightarrow> uint \<Rightarrow> bool" where
  "noRecords s userID =
     (\<exists>interactions tasks projects contacts.
        interactionRepo s = Some interactions \<and> taskRepo s = Some tasks \<and>
        projectRepo s = Some projects \<and> contactRepo s = Some contacts \<and>
        (\<forall>days limit. InteractionRepository.GetRecentByUserID interactions userID days limit = Inr []) \<and>
        (\<forall>filter. TaskRepository.GetByUserID tasks userID filter = Inr []) \<and>
        (\<forall>filter. ProjectRepository.GetByUserID projects userID filter = Inr []) \<and>
        (\<forall>filter. ContactRepository.GetByUserID contacts userID filter = Inr []))"

text \<open>The last step of \<^verbatim>\<open>GetRecentActivities\<close>: \<^verbatim>\<open>activities[:limit]\<close> when there are more.\<close>

definition limited :: "int \<Rightarrow> UserActivity list \<Rightarrow> UserActivity list" where
  "limited limit activities =
     (if int (length activities) > limit then take (nat limit) activities else activities)"

text \<open>
  The four lists of step 3 of \<^verbatim>\<open>GetDashboardData\<close>: the projections of the rows that the
  query returns, or nothing when the repository is nil or the query fails.
\<close>

definition recentInteractionsOrEmpty :: "userService \<Rightarrow> uint \<Rightarrow> DashboardInteraction list" where
  "recentInteractionsOrEmpty s userID =
     (case interactionRepo s of
        None \<Rightarrow> []
      | Some repo \<Rightarrow>
          (case InteractionRepository.GetByUserID repo userID
                  (InteractionListFilter_zero\<lparr>InteractionListFilter.Limit := 5\<rparr>) of
             Inl err \<Rightarrow> []
           | Inr rows \<Rightarrow> map dashboardInteraction rows))"

definition recentProjectsOrEmpty :: "userService \<Rightarrow> uint \<Rightarrow> DashboardProject list" where
  "recentProjectsOrEmpty s userID =
     (case projectRepo s of
        None \<Rightarrow> []
      | Some repo \<Rightarrow>
          (case ProjectRepository.GetByUserID repo userID
                  (ProjectListFilter_zero\<lparr>ProjectListFilter.Status := ''IN_PROGRESS'',
                                          ProjectListFilter.Limit := 5\<rparr>) of
             Inl err \<Rightarrow> []
           | Inr rows \<Rightarrow> map dashboardProject rows))"

definition recentPendingTasksOrEmpty :: "userService \<Rightarrow> uint \<Rightarrow> DashboardTask list" where
  "recentPendingTasksOrEmpty s userID =
     (case taskRepo s of
        None \<Rightarrow> []
      | Some repo \<Rightarrow>
          (case TaskRepository.GetByUserID repo userID
                  (TaskListFilter_zero\<lparr>TaskListFilter.Status := TaskStatusPending,
                                       TaskListFilter.Limit := 5\<rparr>) of
             Inl err \<Rightarrow> []
           | Inr rows \<Rightarrow> map dashboardTask rows))"

definition recentContactsOrEmpty :: "userService \<Rightarrow> uint \<Rightarrow> DashboardContact list" where
  "recentContactsOrEmpty s userID =
     (case contactRepo s of
        None \<Rightarrow> []
      | Some repo \<Rightarrow>
          (case ContactRepository.GetByUserID repo userID
                  (ContactListFilter_zero\<lparr>ContactListFilter.Limit := 5\<rparr>) of
             Inl err \<Rightarrow> []
           | Inr rows \<Rightarrow> map dashboardContact rows))"

section \<open>The sort of Go's standard library\<close>

text \<open>
  Package \<^verbatim>\<open>sort\<close> is not part of the repository. This is \<^verbatim>\<open>sort.Slice\<close> as Go 1.19 and
  later implement it (the repository asks for Go 1.21 or later): pattern-defeating quicksort,
  \<^verbatim>\<open>pdqsort_func\<close> of \<^verbatim>\<open>zsortfunc.go\<close>, on the slice and the comparison of its elements.
  Indices and lengths are natural numbers; they stay within the slice, so no subtraction
  goes below zero. It serves to run the sort on a concrete slice.
\<close>

definition data_Less :: "('a \<Rightarrow> 'a \<Rightarrow> bool) \<Rightarrow> 'a list \<Rightarrow> nat \<Rightarrow> nat \<Rightarrow> bool" where
  "data_Less lt data i j = lt (data ! i) (data ! j)"

definition data_Swap :: "'a list \<Rightarrow> nat \<Rightarrow> nat \<Rightarrow> 'a list" where
  "data_Swap data i j = data[i := data ! j, j := data ! i]"

text \<open>\<^verbatim>\<open>insertionSort_func\<close>: the inner loop, then the outer one.\<close>

function insertionSort_inner :: "('a \<Rightarrow> 'a \<Rightarrow> bool) \<Rightarrow> 'a list \<Rightarrow> nat \<Rightarrow> nat \<Rightarrow> 'a list" where
  "insertionSort_inner lt data a j =
     (if j > a \<and> data_Less lt data j (j - 1)
      then insertionSort_inner lt (data_Swap data j (j - 1)) a (j - 1)
      else data)"
  by pat_completeness auto
termination
  by (relation "measure (\<lambda>(lt, data, a, j). j)") auto

declare insertionSort_inner.simps [simp del]

function insertionSort_outer ::
  "('a \<Rightarrow> 'a \<Rightarrow> bool) \<Rightarrow> 'a list \<Rightarrow> nat \<Rightarrow> nat \<Rightarrow> nat \<Rightarrow> 'a list" where
  "insertionSort_outer lt data a b i =
     (if i < b then insertionSort_outer lt (insertionSort_inner lt data a i) a b (i + 1)
      else data)"
  by pat_completeness auto
termination
  by (relation "measure (\<lambda>(lt, data, a, b, i). b - i)") auto

declare insertionSort_outer.simps [simp del]

definition insertionSort_func :: "('a \<Rightarrow> 'a \<Rightarrow> bool) \<Rightarrow> 'a list \<Rightarrow> nat \<Rightarrow> nat \<Rightarrow> 'a list" where
  "insertionSort_func lt data a b = insertionSort_outer lt data a b (a + 1)"

text \<open>\<^verbatim>\<open>siftDown_func\<close> and \<^verbatim>\<open>heapSort_func\<close>, whose two loops count \<^verbatim>\<open>i\<close> down to 0.\<close>

function siftDown_func ::
  "('a \<Rightarrow> 'a \<Rightarrow> bool) \<Rightarrow> 'a list \<Rightarrow> nat \<Rightarrow> nat \<Rightarrow> nat \<Rightarrow> 'a list" where
  "siftDown_func lt data lo hi first =
     (let root = lo; child = 2 * root + 1 in
      if child \<ge> hi then data
      else
        let child = (if child + 1 < hi \<and> data_Less lt data (first + child) (first + child + 1)
                     then child + 1 else child)
        in if \<not> data_Less lt data (first + root) (first + child) then data
           else siftDown_func lt (data_Swap data (first + root) (first + child)) child hi first)"
  by pat_completeness auto
termination
  by (relation "measure (\<lambda>(lt, data, lo, hi, first). hi - lo)") (auto simp: Let_def)

declare siftDown_func.simps [simp del]

fun heapSort_build :: "('a \<Rightarrow> 'a \<Rightarrow> bool) \<Rightarrow> 'a list \<Rightarrow> nat \<Rightarrow> nat \<Rightarrow> nat \<Rightarrow> 'a list" where
  "heapSort_build lt data 0 hi first = siftDown_func lt data 0 hi first"
| "heapSort_build lt data (Suc i) hi first =
     heapSort_build lt (siftDown_func lt data (Suc i) hi first) i hi first"

fun heapSort_pop :: "('a \<Rightarrow> 'a \<Rightarrow> bool) \<Rightarrow> 'a list \<Rightarrow> nat \<Rightarrow> nat \<Rightarrow> nat \<Rightarrow> 'a list" where
  "heapSort_pop lt data 0 lo first = siftDown_func lt (data_Swap data first (first + 0)) lo 0 first"
| "heapSort_pop lt data (Suc i) lo first =
     heapSort_pop lt (siftDown_func lt (data_Swap data first (first + Suc i)) lo (Suc i) first)
       i lo first"

definition heapSort_func :: "('a \<Rightarrow> 'a \<Rightarrow> bool) \<Rightarrow> 'a list \<Rightarrow> nat \<Rightarrow> nat \<Rightarrow> 'a list" where
  "heapSort_func lt data a b =
     (let first = a; lo = 0; hi = b - a;
          data = heapSort_build lt data ((hi - 1) div 2) hi first
      in if hi = 0 then data else heapSort_pop lt data (hi - 1) lo first)"

text \<open>
  \<^verbatim>\<open>breakPatterns_func\<close>, with the generator \<^verbatim>\<open>xorshift\<close> of package sort and
  \<^verbatim>\<open>bits.Len\<close>.
\<close>

datatype sortedHint = unknownHint | increasingHint | decreasingHint

definition xorshift_Next :: "64 word \<Rightarrow> 64 word" where
  "xorshift_Next r =
     (let r = r XOR push_bit 13 r;
          r = r XOR drop_bit 17 r;
          r = r XOR push_bit 5 r
      in r)"

fun bits_Len :: "nat \<Rightarrow> nat" where
  "bits_Len n = (if n = 0 then 0 else Suc (bits_Len (n div 2)))"

definition nextPowerOfTwo :: "nat \<Rightarrow> nat" where
  "nextPowerOfTwo len = 2 ^ bits_Len len"

function breakPatterns_loop ::
  "'a list \<Rightarrow> nat \<Rightarrow> nat \<Rightarrow> nat \<Rightarrow> nat \<Rightarrow> 64 word \<Rightarrow> nat \<Rightarrow> 'a list" where
  "breakPatterns_loop data a len modulus idx random i =
     (if i < 3 then
        let random = xorshift_Next random;
            other = unat (random AND of_nat (modulus - 1));
            other = (if other \<ge> len then other - len else other)
        in breakPatterns_loop (data_Swap data (idx - 1 + i) (a + other)) a len modulus idx
             random (i + 1)
      else data)"
  by pat_completeness auto
termination
  by (relation "measure (\<lambda>(data, a, len, modulus, idx, random, i). 3 - i)") auto

declare breakPatterns_loop.simps [simp del]

definition breakPatterns_func :: "'a list \<Rightarrow> nat \<Rightarrow> nat \<Rightarrow> 'a list" where
  "breakPatterns_func data a b =
     (let len = b - a in
      if len \<ge> 8 then
        let random = of_nat len;
            modulus = nextPowerOfTwo len;
            idx = a + (len div 4) * 2 - 1
        in breakPatterns_loop data a len modulus idx random 0
      else data)"

text \<open>\<^verbatim>\<open>choosePivot_func\<close>; the counter \<^verbatim>\<open>swaps\<close> is passed along.\<close>

definition order2_func ::
  "('a \<Rightarrow> 'a \<Rightarrow> bool) \<Rightarrow> 'a list \<Rightarrow> nat \<Rightarrow> nat \<Rightarrow> nat \<Rightarrow> nat \<times> nat \<times> nat" where
  "order2_func lt data a b swaps =
     (if data_Less lt data b a then (b, a, swaps + 1) else (a, b, swaps))"

definition median_func ::
  "('a \<Rightarrow> 'a \<Rightarrow> bool) \<Rightarrow> 'a list \<Rightarrow> nat \<Rightarrow> nat \<Rightarrow> nat \<Rightarrow> nat \<Rightarrow> nat \<times> nat" where
  "median_func lt data a b c swaps =
     (let (a, b, swaps) = order2_func lt data a b swaps;
          (b, c, swaps) = order2_func lt data b c swaps;
          (a, b, swaps) = order2_func lt data a b swaps
      in (b, swaps))"

definition medianAdjacent_func ::
  "('a \<Rightarrow> 'a \<Rightarrow> bool) \<Rightarrow> 'a list \<Rightarrow> nat \<Rightarrow> nat \<Rightarrow> nat \<times> nat" where
  "medianAdjacent_func lt data a swaps = median_func lt data (a - 1) a (a + 1) swaps"

definition choosePivot_func ::
  "('a \<Rightarrow> 'a \<Rightarrow> bool) \<Rightarrow> 'a list \<Rightarrow> nat \<Rightarrow> nat \<Rightarrow> nat \<times> sortedHint" where
  "choosePivot_func lt data a b =
     (let shortestNinther = 50;
          maxSwaps = 4 * 3;
          l = b - a;
          swaps = 0;
          i = a + l div 4 * 1;
          j = a + l div 4 * 2;
          k = a + l div 4 * 3;
          (j, swaps) =
            (if l \<ge> 8 then
               let (i, j, k, swaps) =
                     (if l \<ge> shortestNinther then
                        let (i, swaps) = medianAdjacent_func lt data i swaps;
                            (j, swaps) = medianAdjacent_func lt data j swaps;
                            (k, swaps) = medianAdjacent_func lt data k swaps
                        in (i, j, k, swaps)
                      else (i, j, k, swaps))
               in median_func lt data i j k swaps
             else (j, swaps))
      in if swaps = 0 then (j, increasingHint)
         else if swaps = maxSwaps then (j, decreasingHint)
         else (j, unknownHint))"

function reverseRange_loop :: "'a list \<Rightarrow> nat \<Rightarrow> nat \<Rightarrow> 'a list" where
  "reverseRange_loop data i j =
     (if i < j then reverseRange_loop (data_Swap data i j) (i + 1) (j - 1) else data)"
  by pat_completeness auto
termination
  by (relation "measure (\<lambda>(data, i, j). j - i)") auto

declare reverseRange_loop.simps [simp del]

definition reverseRange_func :: "'a list \<Rightarrow> nat \<Rightarrow> nat \<Rightarrow> 'a list" where
  "reverseRange_func data a b = reverseRange_loop data a (b - 1)"

text \<open>
  \<^verbatim>\<open>partialInsertionSort_func\<close>: the scan over the sorted prefix, the two shifts, and the
  loop of at most \<^verbatim>\<open>maxSteps\<close> rounds. It returns the slice and whether it is sorted.
\<close>

function partialInsertionSort_skip :: "('a \<Rightarrow> 'a \<Rightarrow> bool) \<Rightarrow> 'a list \<Rightarrow> nat \<Rightarrow> nat \<Rightarrow> nat" where
  "partialInsertionSort_skip lt data b i =
     (if i < b \<and> \<not> data_Less lt data i (i - 1)
      then partialInsertionSort_skip lt data b (i + 1) else i)"
  by pat_completeness auto
termination
  by (relation "measure (\<lambda>(lt, data, b, i). b - i)") auto

declare partialInsertionSort_skip.simps [simp del]

fun partialInsertionSort_left :: "('a \<Rightarrow> 'a \<Rightarrow> bool) \<Rightarrow> 'a list \<Rightarrow> nat \<Rightarrow> 'a list" where
  "partialInsertionSort_left lt data 0 = data"
| "partialInsertionSort_left lt data (Suc j) =
     (if \<not> data_Less lt data (Suc j) j then data
      else partialInsertionSort_left lt (data_Swap data (Suc j) j) j)"

function partialInsertionSort_right ::
  "('a \<Rightarrow> 'a \<Rightarrow> bool) \<Rightarrow> 'a list \<Rightarrow> nat \<Rightarrow> nat \<Rightarrow> 'a list" where
  "partialInsertionSort_right lt data b j =
     (if j < b then
        (if \<not> data_Less lt data j (j - 1) then data
         else partialInsertionSort_right lt (data_Swap data j (j - 1)) b (j + 1))
      else data)"
  by pat_completeness auto
termination
  by (relation "measure (\<lambda>(lt, data, b, j). b - j)") auto

declare partialInsertionSort_right.simps [simp del]

function partialInsertionSort_loop ::
  "('a \<Rightarrow> 'a \<Rightarrow> bool) \<Rightarrow> 'a list \<Rightarrow> nat \<Rightarrow> nat \<Rightarrow> nat \<Rightarrow> nat \<Rightarrow> 'a list \<times> bool" where
  "partialInsertionSort_loop lt data a b i j =
     (let maxSteps = 5; shortestShifting = 50 in
      if j < maxSteps then
        let i = partialInsertionSort_skip lt data b i in
        if i = b then (data, True)
        else if b - a < shortestShifting then (data, False)
        else
          let data = data_Swap data i (i - 1);
              data = (if i - a \<ge> 2 then partialInsertionSort_left lt data (i - 1) else data);
              data = (if b - i \<ge> 2 then partialInsertionSort_right lt data b (i + 1) else data)
          in partialInsertionSort_loop lt data a b i (j + 1)
      else (data, False))"
  by pat_completeness auto
termination
  by (relation "measure (\<lambda>(lt, data, a, b, i, j). 5 - j)") auto

declare partialInsertionSort_loop.simps [simp del]

definition partialInsertionSort_func ::
  "('a \<Rightarrow> 'a \<Rightarrow> bool) \<Rightarrow> 'a list \<Rightarrow> nat \<Rightarrow> nat \<Rightarrow> 'a list \<times> bool" where
  "partialInsertionSort_func lt data a b = partialInsertionSort_loop lt data a b (a + 1) 0"

text \<open>
  The two scans of \<^verbatim>\<open>partitionEqual_func\<close> and \<^verbatim>\<open>partition_func\<close>:
  \<^verbatim>\<open>for i <= j && p(i) { i++ }\<close> and \<^verbatim>\<open>for i <= j && p(j) { j-- }\<close>. In both functions
  \<^verbatim>\<open>i\<close> is at least \<^verbatim>\<open>a+1\<close>, so the second scan stops at 0 at the latest.
\<close>

function scan_up :: "(nat \<Rightarrow> bool) \<Rightarrow> nat \<Rightarrow> nat \<Rightarrow> nat" where
  "scan_up p i j = (if i \<le> j \<and> p i then scan_up p (i + 1) j else i)"
  by pat_completeness auto
termination
  by (relation "measure (\<lambda>(p, i, j). j + 1 - i)") auto

declare scan_up.simps [simp del]

fun scan_down :: "(nat \<Rightarrow> bool) \<Rightarrow> nat \<Rightarrow> nat \<Rightarrow> nat" where
  "scan_down p i 0 = 0"
| "scan_down p i (Suc j) = (if i \<le> Suc j \<and> p (Suc j) then scan_down p i j else Suc j)"

lemma scan_up_ge: "i \<le> scan_up p i j"
proof (induction p i j rule: scan_up.induct)
  case (1 p i j)
  then show ?case by (subst scan_up.simps) auto
qed

lemma scan_down_le: "scan_down p i j \<le> j"
  by (induction j) auto

function partitionEqual_loop ::
  "('a \<Rightarrow> 'a \<Rightarrow> bool) \<Rightarrow> 'a list \<Rightarrow> nat \<Rightarrow> nat \<Rightarrow> nat \<Rightarrow> 'a list \<times> nat" where
  "partitionEqual_loop lt data a i j =
     (let i = scan_up (\<lambda>i. \<not> data_Less lt data a i) i j;
          j = scan_down (\<lambda>j. data_Less lt data a j) i j
      in if i > j then (data, i)
         else partitionEqual_loop lt (data_Swap data i j) a (i + 1) (j - 1))"
  by pat_completeness auto
termination
proof (relation "measure (\<lambda>(lt, data, a, i, j). j + 1 - i)", goal_cases)
  case 1
  show ?case by simp
next
  case (2 lt data a i j i' j')
  have "i \<le> i'" using 2 scan_up_ge by simp
  moreover have "j' \<le> j" using 2 scan_down_le by simp
  ultimately show ?case using 2 by simp
qed

declare partitionEqual_loop.simps [simp del]

definition partitionEqual_func ::
  "('a \<Rightarrow> 'a \<Rightarrow> bool) \<Rightarrow> 'a list \<Rightarrow> nat \<Rightarrow> nat \<Rightarrow> nat \<Rightarrow> 'a list \<times> nat" where
  "partitionEqual_func lt data a b pivot =
     (let data = data_Swap data a pivot;
          i = a + 1; j = b - 1
      in partitionEqual_loop lt data a i j)"

function partition_loop ::
  "('a \<Rightarrow> 'a \<Rightarrow> bool) \<Rightarrow> 'a list \<Rightarrow> nat \<Rightarrow> nat \<Rightarrow> nat \<Rightarrow> 'a list \<times> nat" where
  "partition_loop lt data a i j =
     (let i = scan_up (\<lambda>i. data_Less lt data i a) i j;
          j = scan_down (\<lambda>j. \<not> data_Less lt data j a) i j
      in if i > j then (data, j)
         else partition_loop lt (data_Swap data i j) a (i + 1) (j - 1))"
  by pat_completeness auto
termination
proof (relation "measure (\<lambda>(lt, data, a, i, j). j + 1 - i)", goal_cases)
  case 1
  show ?case by simp
next
  case (2 lt data a i j i' j')
  have "i \<le> i'" using 2 scan_up_ge by simp
  moreover have "j' \<le> j" using 2 scan_down_le by simp
  ultimately show ?case using 2 by simp
qed

declare partition_loop.simps [simp del]

definition partition_func ::
  "('a \<Rightarrow> 'a \<Rightarrow> bool) \<Rightarrow> 'a list \<Rightarrow> nat \<Rightarrow> nat \<Rightarrow> nat \<Rightarrow> 'a list \<times> nat \<times> bool" where
  "partition_func lt data a b pivot =
     (let data = data_Swap data a pivot;
          i = a + 1; j = b - 1;
          i = scan_up (\<lambda>i. data_Less lt data i a) i j;
          j = scan_down (\<lambda>j. \<not> data_Less lt data j a) i j
      in if i > j then (data_Swap data j a, j, True)
         else
           let data = data_Swap data i j;
               i = i + 1; j = j - 1;
               (data, j) = partition_loop lt data a i j
           in (data_Swap data j a, j, False))"

lemma scan_down_ge: "a \<le> j \<Longrightarrow> a < i \<Longrightarrow> a \<le> scan_down p i j"
  by (induction j) auto

lemma partitionEqual_loop_ge: "i \<le> snd (partitionEqual_loop lt data a i j)"
proof (induction lt data a i j rule: partitionEqual_loop.induct)
  case (1 lt data a i j)
  let ?i = "scan_up (\<lambda>i. \<not> data_Less lt data a i) i j"
  let ?j = "scan_down (\<lambda>j. data_Less lt data a j) ?i j"
  have i: "i \<le> ?i" by (rule scan_up_ge)
  show ?case
  proof (cases "?i > ?j")
    case True
    then show ?thesis using i by (subst partitionEqual_loop.simps) (simp add: Let_def)
  next
    case False
    with "1.IH" [of ?i ?j]
    have "?i + 1 \<le> snd (partitionEqual_loop lt (data_Swap data ?i ?j) a (?i + 1) (?j - 1))"
      by simp
    with False i show ?thesis by (subst partitionEqual_loop.simps) (simp add: Let_def)
  qed
qed

lemma partitionEqual_func_gt: "a < snd (partitionEqual_func lt data a b pivot)"
  using partitionEqual_loop_ge [of "a + 1"] by (simp add: partitionEqual_func_def Let_def less_eq_Suc_le)

lemma partition_loop_bounds:
  "a < i \<Longrightarrow> a \<le> j \<Longrightarrow>
   a \<le> snd (partition_loop lt data a i j) \<and> snd (partition_loop lt data a i j) \<le> j"
proof (induction lt data a i j rule: partition_loop.induct)
  case (1 lt data a i j)
  let ?i = "scan_up (\<lambda>i. data_Less lt data i a) i j"
  let ?j = "scan_down (\<lambda>j. \<not> data_Less lt data j a) ?i j"
  have i: "i \<le> ?i" by (rule scan_up_ge)
  have jl: "?j \<le> j" by (rule scan_down_le)
  have jg: "a \<le> ?j" using "1.prems" i by (intro scan_down_ge) auto
  show ?case
  proof (cases "?i > ?j")
    case True
    then show ?thesis using jl jg by (subst (1 2) partition_loop.simps) (simp add: Let_def)
  next
    case False
    with "1.IH" [of ?i ?j] "1.prems" i
    have "a \<le> snd (partition_loop lt (data_Swap data ?i ?j) a (?i + 1) (?j - 1)) \<and>
          snd (partition_loop lt (data_Swap data ?i ?j) a (?i + 1) (?j - 1)) \<le> ?j - 1"
      by auto
    with False jl show ?thesis by (subst (1 2) partition_loop.simps) (auto simp add: Let_def)
  qed
qed

lemma partition_func_bounds:
  assumes "a + 1 < b"
  shows "a \<le> fst (snd (partition_func lt data a b pivot)) \<and>
         fst (snd (partition_func lt data a b pivot)) < b"
proof -
  let ?d = "data_Swap data a pivot"
  let ?i = "scan_up (\<lambda>i. data_Less lt ?d i a) (a + 1) (b - 1)"
  let ?j = "scan_down (\<lambda>j. \<not> data_Less lt ?d j a) ?i (b - 1)"
  have i: "a + 1 \<le> ?i" by (rule scan_up_ge)
  have jl: "?j \<le> b - 1" by (rule scan_down_le)
  have jg: "a \<le> ?j" using assms i by (intro scan_down_ge) auto
  have jb: "?j < b" using jl assms by arith
  show ?thesis
  proof (cases "?i > ?j")
    case True
    then show ?thesis using jb jg by (simp add: partition_func_def Let_def)
  next
    case False
    from partition_loop_bounds [of a "?i + 1" "?j - 1" lt "data_Swap ?d ?i ?j"] False i
    have "a \<le> snd (partition_loop lt (data_Swap ?d ?i ?j) a (?i + 1) (?j - 1)) \<and>
          snd (partition_loop lt (data_Swap ?d ?i ?j) a (?i + 1) (?j - 1)) \<le> ?j - 1"
      by auto
    then have "a \<le> snd (partition_loop lt (data_Swap ?d ?i ?j) a (?i + 1) (?j - 1)) \<and>
          snd (partition_loop lt (data_Swap ?d ?i ?j) a (?i + 1) (?j - 1)) < b"
      using jb by arith
    with False show ?thesis
      by (auto simp add: partition_func_def Let_def split: prod.splits)
  qed
qed

text \<open>
  \<^verbatim>\<open>pdqsort_func\<close>. The loop of the source continues on one side of the pivot after the
  recursive call on the other side; a continued loop is a call with the current values of
  \<^verbatim>\<open>wasBalanced\<close> and \<^verbatim>\<open>wasPartitioned\<close>, and a recursive call starts with both true.
\<close>

function pdqsort_func ::
  "('a \<Rightarrow> 'a \<Rightarrow> bool) \<Rightarrow> 'a list \<Rightarrow> nat \<Rightarrow> nat \<Rightarrow> nat \<Rightarrow> bool \<Rightarrow> bool \<Rightarrow> 'a list" where
  "pdqsort_func lt data a b limit wasBalanced wasPartitioned =
     (let maxInsertion = 12; len = b - a in
      if len \<le> maxInsertion then insertionSort_func lt data a b
      else if limit = 0 then heapSort_func lt data a b
      else
        let data = (if \<not> wasBalanced then breakPatterns_func data a b else data);
            limit = (if \<not> wasBalanced then limit - 1 else limit);
            chosen = choosePivot_func lt data a b;
            reversed = (snd chosen = decreasingHint);
            data = (if reversed then reverseRange_func data a b else data);
            pivot = (if reversed then (b - 1) - (fst chosen - a) else fst chosen);
            hint = (if reversed then increasingHint else snd chosen);
            tried = (if wasBalanced \<and> wasPartitioned \<and> hint = increasingHint
                     then partialInsertionSort_func lt data a b else (data, False));
            data = fst tried
        in if snd tried then data
           else if a > 0 \<and> \<not> data_Less lt data (a - 1) pivot then
             let parted = partitionEqual_func lt data a b pivot;
                 mid = snd parted
             in pdqsort_func lt (fst parted) mid b limit wasBalanced wasPartitioned
           else
             let parted = partition_func lt data a b pivot;
                 mid = fst (snd parted);
                 wasPartitioned = snd (snd parted);
                 leftLen = mid - a;
                 rightLen = b - mid;
                 balanceThreshold = len div 8
             in if leftLen < rightLen then
                  let wasBalanced = (leftLen \<ge> balanceThreshold);
                      data = pdqsort_func lt (fst parted) a mid limit True True
                  in pdqsort_func lt data (mid + 1) b limit wasBalanced wasPartitioned
                else
                  let wasBalanced = (rightLen \<ge> balanceThreshold);
                      data = pdqsort_func lt (fst parted) (mid + 1) b limit True True
                  in pdqsort_func lt data a mid limit wasBalanced wasPartitioned)"
  by pat_completeness auto
termination
proof (relation "measure (\<lambda>(lt, data, a, b, limit, wasBalanced, wasPartitioned). b - a)",
       goal_cases)
  case 1
  show ?case by simp
next
  case (2 lt data a b limit wasBalanced wasPartitioned x xa xb xc xd xe xf xg xh xi xj xk xl)
  have len: "12 < b - a" using 2(1,2,3) by simp
  have "a < xl" unfolding 2(17) 2(16) by (rule partitionEqual_func_gt)
  with len show ?case by auto
next
  case (3 lt data a b limit wasBalanced wasPartitioned x xa xb xc xd xe xf xg xh xi xj xk xl xm xn xo xp xq)
  have len: "12 < b - a" using 3(1,2,3) by simp
  then have "a + 1 < b" by simp
  from partition_func_bounds [OF this, of lt xj xg]
  have "a \<le> xl \<and> xl < b" unfolding 3(17) 3(16) .
  with len show ?case by auto
next
  case (4 lt data a b limit wasBalanced wasPartitioned x xa xb xc xd xe xf xg xh xi xj xk xl xm xn xo xp xq xr)
  have len: "12 < b - a" using 4(1,2,3) by simp
  then have "a + 1 < b" by simp
  from partition_func_bounds [OF this, of lt xj xg]
  have "a \<le> xl \<and> xl < b" unfolding 4(17) 4(16) .
  with len show ?case by auto
next
  case (5 lt data a b limit wasBalanced wasPartitioned x xa xb xc xd xe xf xg xh xi xj xk xl xm xn xo xp xq)
  have len: "12 < b - a" using 5(1,2,3) by simp
  then have "a + 1 < b" by simp
  from partition_func_bounds [OF this, of lt xj xg]
  have "a \<le> xl \<and> xl < b" unfolding 5(17) 5(16) .
  with len show ?case by auto
next
  case (6 lt data a b limit wasBalanced wasPartitioned x xa xb xc xd xe xf xg xh xi xj xk xl xm xn xo xp xq xr)
  have len: "12 < b - a" using 6(1,2,3) by simp
  then have "a + 1 < b" by simp
  from partition_func_bounds [OF this, of lt xj xg]
  have "a \<le> xl \<and> xl < b" unfolding 6(17) 6(16) .
  with len show ?case by auto
qed

declare pdqsort_func.simps [simp del]

text \<open>\<^verbatim>\<open>sort.Slice\<close>: the sort of the whole slice, with \<^verbatim>\<open>bits.Len(length)\<close> as the limit.\<close>

definition go_sort_Slice :: "'a sort_Slice" where
  "go_sort_Slice lt x =
     (let len = length x;
          limit = bits_Len len
      in pdqsort_func lt x 0 len limit True True)"

section \<open>Fixtures\<close>

definition contact_ana :: Contact where
  "contact_ana =
     \<lparr>Contact.ID = 1, Name = ''Ana'', Email = ''ana@example.com'', Phone = [],
      Company = ''Acme'', Position = [], Type = ContactTypeClient, Notes = ''met at fair'',
      UserID = 1, CreatedAt = 500, UpdatedAt = 500\<rparr>"

definition task_pending :: Task where
  "task_pending =
     \<lparr>Task.ID = 7, Title = ''Call Ana'', Description = ''call back'', DueDate = None,
      Priority = ''LOW'', Status = TaskStatusPending, UserID = 1, ContactID = None,
      ProjectID = None, CreatedAt = 1000, UpdatedAt = 1000, Contact = None, Project = None\<rparr>"

definition task_done :: Task where
  "task_done =
     \<lparr>Task.ID = 8, Title = ''Send offer'', Description = ''by mail'', DueDate = None,
      Priority = ''HIGH'', Status = TaskStatusCompleted, UserID = 1, ContactID = None,
      ProjectID = None, CreatedAt = 2000, UpdatedAt = 2000, Contact = None, Project = None\<rparr>"

definition task_done_later :: Task where
  "task_done_later =
     \<lparr>Task.ID = 9, Title = ''Sign'', Description = [], DueDate = None,
      Priority = ''HIGH'', Status = TaskStatusCompleted, UserID = 1, ContactID = None,
      ProjectID = None, CreatedAt = 3000, UpdatedAt = 120000003000, Contact = None,
      Project = None\<rparr>"

definition project_site :: Project where
  "project_site =
     \<lparr>Project.ID = 3, Name = ''Site'', Description = ''new web site'',
      Status = ProjectStatusInProgress, UserID = 1, ClientID = 1, CreatedAt = 4000,
      UpdatedAt = 4000, Client = contact_ana\<rparr>"

definition interaction_call :: Interaction where
  "interaction_call =
     \<lparr>Interaction.ID = 5, Type = ''CALL'', Date = 900, Subject = ''Intro call'',
      Description = ''first contact'', ContactID = 1, CreatedAt = 900, UpdatedAt = 900,
      Contact = contact_ana\<rparr>"

text \<open>Repositories that answer every query, and repositories that fail some.\<close>

definition contacts_up :: ContactRepository where
  "contacts_up =
     \<lparr>ContactRepository.GetByUserID = (\<lambda>userID filter. Inr [contact_ana]),
      CountByUserID = (\<lambda>userID. Inr 1),
      CountByType = (\<lambda>userID contactType.
                       if contactType = ContactTypeClient then Inr 1 else Inr 0)\<rparr>"

definition contacts_down :: ContactRepository where
  "contacts_down =
     \<lparr>ContactRepository.GetByUserID = (\<lambda>userID filter. Inl RepositoryError),
      CountByUserID = (\<lambda>userID. Inl RepositoryError),
      CountByType = (\<lambda>userID contactType. Inl RepositoryError)\<rparr>"

definition tasks_up :: TaskRepository where
  "tasks_up =
     \<lparr>TaskRepository.GetByUserID =
        (\<lambda>userID filter. if TaskListFilter.Status filter = TaskStatusPending
                          then Inr [task_pending] else Inr [task_pending, task_done]),
      CountByUserID = (\<lambda>userID. Inr 2),
      CountPendingByUserID = (\<lambda>userID. Inr 1),
      CountOverdueByUserID = (\<lambda>userID. Inr 1)\<rparr>"

definition tasks_overdue_down :: TaskRepository where
  "tasks_overdue_down =
     \<lparr>TaskRepository.GetByUserID = (\<lambda>userID filter. Inr [task_pending, task_done]),
      CountByUserID = (\<lambda>userID. Inr 2),
      CountPendingByUserID = (\<lambda>userID. Inr 1),
      CountOverdueByUserID = (\<lambda>userID. Inl RepositoryError)\<rparr>"

definition projects_up :: ProjectRepository where
  "projects_up =
     \<lparr>ProjectRepository.GetByUserID = (\<lambda>userID filter. Inr [project_site]),
      CountByUserID = (\<lambda>userID. Inr 1),
      CountByStatus = (\<lambda>userID status.
                         if status = ProjectStatusInProgress then Inr 1 else Inr 0)\<rparr>"

definition interactions_up :: InteractionRepository where
  "interactions_up =
     \<lparr>InteractionRepository.GetByUserID = (\<lambda>userID filter. Inr [interaction_call]),
      GetRecentByUserID = (\<lambda>userID days limit. Inr [interaction_call])\<rparr>"

definition interactions_recent_down :: InteractionRepository where
  "interactions_recent_down =
     \<lparr>InteractionRepository.GetByUserID = (\<lambda>userID filter. Inr [interaction_call]),
      GetRecentByUserID = (\<lambda>userID days limit. Inl RepositoryError)\<rparr>"

definition svc_up :: userService where
  "svc_up =
     \<lparr>contactRepo = Some contacts_up, taskRepo = Some tasks_up,
      projectRepo = Some projects_up, interactionRepo = Some interactions_up\<rparr>"

definition svc_degraded :: userService where
  "svc_degraded =
     \<lparr>contactRepo = Some contacts_up, taskRepo = Some tasks_overdue_down,
      projectRepo = Some projects_up, interactionRepo = Some interactions_recent_down\<rparr>"

definition svc_contacts_down :: userService where
  "svc_contacts_down =
     \<lparr>contactRepo = Some contacts_down, taskRepo = Some tasks_up,
      projectRepo = Some projects_up, interactionRepo = Some interactions_up\<rparr>"

text \<open>A contact repository whose listing fails for the dashboard's query (limit 5) only.\<close>

definition contacts_flaky :: ContactRepository where
  "contacts_flaky =
     \<lparr>ContactRepository.GetByUserID =
        (\<lambda>userID filter. if ContactListFilter.Limit filter = 5 then Inl RepositoryError
                          else Inr [contact_ana]),
      CountByUserID = (\<lambda>userID. Inr 1),
      CountByType = (\<lambda>userID contactType.
                       if contactType = ContactTypeClient then Inr 1 else Inr 0)\<rparr>"

definition svc_contacts_flaky :: userService where
  "svc_contacts_flaky =
     \<lparr>contactRepo = Some contacts_flaky, taskRepo = Some tasks_up,
      projectRepo = Some projects_up, interactionRepo = Some interactions_up\<rparr>"

text \<open>An owner without records.\<close>

definition svc_empty :: userService where
  "svc_empty =
     \<lparr>contactRepo = Some \<lparr>ContactRepository.GetByUserID = (\<lambda>userID filter. Inr []),
                            CountByUserID = (\<lambda>userID. Inr 0),
                            CountByType = (\<lambda>userID contactType. Inr 0)\<rparr>,
      taskRepo = Some \<lparr>TaskRepository.GetByUserID = (\<lambda>userID filter. Inr []),
                         CountByUserID = (\<lambda>userID. Inr 0),
                         CountPendingByUserID = (\<lambda>userID. Inr 0),
                         CountOverdueByUserID = (\<lambda>userID. Inr 0)\<rparr>,
      projectRepo = Some \<lparr>ProjectRepository.GetByUserID = (\<lambda>userID filter. Inr []),
                            CountByUserID = (\<lambda>userID. Inr 0),
                            CountByStatus = (\<lambda>userID status. Inr 0)\<rparr>,
      interactionRepo = Some \<lparr>InteractionRepository.GetByUserID = (\<lambda>userID filter. Inr []),
                                GetRecentByUserID = (\<lambda>userID days limit. Inr [])\<rparr>\<rparr>"

text \<open>The feed of the owner of \<open>svc_up\<close>, newest first.\<close>

definition feed_up :: "UserActivity list" where
  "feed_up =
     [\<lparr>UserActivity.ID = 3, Type = ''PROJECT'', Action = ''CREATED'', Title = ''Site'',
       Detail = ''new web site'', ItemID = 3, CreatedAt = 4000, UpdatedAt = 4000,
       RelatedID = Some 1, RelatedName = Some ''Ana''\<rparr>,
      \<lparr>UserActivity.ID = 8, Type = ''TASK'', Action = ''CREATED'', Title = ''Send offer'',
       Detail = ''by mail'', ItemID = 8, CreatedAt = 2000, UpdatedAt = 2000,
       RelatedID = None, RelatedName = None\<rparr>,
      \<lparr>UserActivity.ID = 8, Type = ''TASK'', Action = ''COMPLETED'', Title = ''Send offer'',
       Detail = ''by mail'', ItemID = 8, CreatedAt = 2000, UpdatedAt = 2000,
       RelatedID = None, RelatedName = None\<rparr>,
      \<lparr>UserActivity.ID = 7, Type = ''TASK'', Action = ''CREATED'', Title = ''Call Ana'',
       Detail = ''call back'', ItemID = 7, CreatedAt = 1000, UpdatedAt = 1000,
       RelatedID = None, RelatedName = None\<rparr>,
      \<lparr>UserActivity.ID = 5, Type = ''INTERACTION'', Action = ''CREATED'', Title = ''Intro call'',
       Detail = ''first contact'', ItemID = 5, CreatedAt = 900, UpdatedAt = 900,
       RelatedID = Some 1, RelatedName = Some ''Ana''\<rparr>,
      \<lparr>UserActivity.ID = 1, Type = ''CONTACT'', Action = ''CREATED'', Title = ''Ana'',
       Detail = ''met at fair'', ItemID = 1, CreatedAt = 500, UpdatedAt = 500,
       RelatedID = None, RelatedName = None\<rparr>]"

definition stats_up :: UserStats where
  "stats_up =
     \<lparr>TotalContacts = 1, TotalClients = 1, TotalLeads = 0, TotalTasks = 2, PendingTasks = 1,
      CompletedTasks = 1, OverdueTasks = 1, TotalProjects = 1, ActiveProjects = 1,
      CompletedProjects = 0, TotalInteractions = 1, UserStats.RecentInteractions = 1\<rparr>"

definition stats_degraded :: UserStats where
  "stats_degraded =
     \<lparr>TotalContacts = 1, TotalClients = 1, TotalLeads = 0, TotalTasks = 2, PendingTasks = 1,
      CompletedTasks = 1, OverdueTasks = 0, TotalProjects = 1, ActiveProjects = 1,
      CompletedProjects = 0, TotalInteractions = 1, UserStats.RecentInteractions = 0\<rparr>"

text \<open>The dashboard of the owner of \<open>svc_contacts_flaky\<close>.\<close>

definition dashboard_flaky :: DashboardData where
  "dashboard_flaky =
     \<lparr>Stats = stats_up,
      RecentActivities = feed_up,
      RecentProjects =
        [\<lparr>DashboardProject.ID = 3, Name = ''Site'', Status = ''IN_PROGRESS'',
          ClientName = ''Ana'', CreatedAt = 4000\<rparr>],
      RecentInteractions =
        [\<lparr>DashboardInteraction.ID = 5, Type = ''CALL'', Subject = ''Intro call'',
          ContactName = ''Ana'', Date = 900\<rparr>],
      RecentPendingTasks =
        [\<lparr>DashboardTask.ID = 7, Title = ''Call Ana'', Priority = ''LOW'', DueDate = None,
          ContactName = [], ProjectName = []\<rparr>],
      RecentContacts = []\<rparr>"

text \<open>
  The events of thirteen contacts: twelve were created at the same instant (an import), the
  last one later.
\<close>

definition contact_event :: "uint \<Rightarrow> Time \<Rightarrow> UserActivity" where
  "contact_event n t =
     \<lparr>UserActivity.ID = n, Type = ''CONTACT'', Action = ''CREATED'', Title = ''Lead'',
      Detail = [], ItemID = n, CreatedAt = t, UpdatedAt = t, RelatedID = None,
      RelatedName = None\<rparr>"

definition bulk_events :: "UserActivity list" where
  "bulk_events =
     [contact_event 1 5000, contact_event 2 5000, contact_event 3 5000, contact_event 4 5000,
      contact_event 5 5000, contact_event 6 5000, contact_event 7 5000, contact_event 8 5000,
      contact_event 9 5000, contact_event 10 5000, contact_event 11 5000,
      contact_event 12 5000, contact_event 13 9000]"

text \<open>The thirteen contacts themselves, their owner's service, and the feed it returns.\<close>

definition lead :: "uint \<Rightarrow> Time \<Rightarrow> Contact" where
  "lead n t =
     \<lparr>Contact.ID = n, Name = ''Lead'', Email = ''lead@example.com'', Phone = [],
      Company = [], Position = [], Type = ContactTypeLead, Notes = [], UserID = 1,
      CreatedAt = t, UpdatedAt = t\<rparr>"

definition svc_bulk :: userService where
  "svc_bulk =
     \<lparr>contactRepo =
        Some \<lparr>ContactRepository.GetByUserID =
                 (\<lambda>userID filter.
                    Inr [lead 1 5000, lead 2 5000, lead 3 5000, lead 4 5000, lead 5 5000,
                         lead 6 5000, lead 7 5000, lead 8 5000, lead 9 5000, lead 10 5000,
                         lead 11 5000, lead 12 5000, lead 13 9000]),
               CountByUserID = (\<lambda>userID. Inr 13),
               CountByType = (\<lambda>userID contactType. Inr 0)\<rparr>,
      taskRepo = Some \<lparr>TaskRepository.GetByUserID = (\<lambda>userID filter. Inr []),
                         CountByUserID = (\<lambda>userID. Inr 0),
                         CountPendingByUserID = (\<lambda>userID. Inr 0),
                         CountOverdueByUserID = (\<lambda>userID. Inr 0)\<rparr>,
      projectRepo = Some \<lparr>ProjectRepository.GetByUserID = (\<lambda>userID filter. Inr []),
                            CountByUserID = (\<lambda>userID. Inr 0),
                            CountByStatus = (\<lambda>userID status. Inr 0)\<rparr>,
      interactionRepo = Some \<lparr>InteractionRepository.GetByUserID = (\<lambda>userID filter. Inr []),
                                GetRecentByUserID = (\<lambda>userID days limit. Inr [])\<rparr>\<rparr>"

definition bulk_feed :: "UserActivity list" where
  "bulk_feed =
     [contact_event 13 9000, contact_event 7 5000, contact_event 3 5000, contact_event 4 5000,
      contact_event 5 5000, contact_event 6 5000, contact_event 1 5000, contact_event 8 5000,
      contact_event 9 5000, contact_event 10 5000, contact_event 11 5000,
      contact_event 12 5000, contact_event 2 5000]"

section \<open>Truncation of the detail text\<close>

lemma truncateString_100_eq:
  "truncateString s 100 = Inr (if length s \<le> 100 then s else take 97 s @ ''...'')"
  by (simp add: truncateString_def)

text \<open>
  C7. The detail truncation (\<^verbatim>\<open>truncateString(s, 100)\<close>) returns a string of at most 100
  bytes unchanged, and turns a longer one into its first 97 bytes followed by \<^verbatim>\<open>...\<close>,
  which is 100 bytes long.
\<close>

theorem truncateString_detail:
  "(length s \<le> 100 \<longrightarrow> truncateString s 100 = Inr s) \<and>
   (100 < length s \<longrightarrow>
      truncateString s 100 = Inr (take 97 s @ ''...'') \<and> length (take 97 s @ ''...'') = 100)"
  by (simp add: truncateString_def)

theorem truncateString_detail_witness:
  "length ''abc'' \<le> 100 \<and> truncateString ''abc'' 100 = Inr ''abc'' \<and>
   100 < length (replicate 101 CHR ''x'') \<and>
   truncateString (replicate 101 CHR ''x'') 100 = Inr (replicate 97 CHR ''x'' @ ''...'')"
  using truncateString_detail [of "''abc''"] truncateString_detail [of "replicate 101 CHR ''x''"]
  by simp

section \<open>Events derived from a task\<close>

lemma createActivityFromTask_Inr:
  "\<exists>a. createActivityFromTask task = Inr a \<and> UserActivity.CreatedAt a = Task.CreatedAt task
     \<and> UserActivity.UpdatedAt a = Task.UpdatedAt task
     \<and> UserActivity.ItemID a = Task.ID task \<and> UserActivity.Type a = ActivityTypeTask"
  by (simp add: createActivityFromTask_def truncateString_100_eq bind_res_def Let_def)

text \<open>
  C2, as the code has it. A task whose \<^verbatim>\<open>UpdatedAt\<close> equals its \<^verbatim>\<open>CreatedAt\<close> yields a
  \<^verbatim>\<open>CREATED\<close> event at the creation time, and, when its status is \<^verbatim>\<open>COMPLETED\<close>, a
  second event \<^verbatim>\<open>COMPLETED\<close> at the modification time: one event for a pending task, two
  for a completed one, and never an \<^verbatim>\<open>UPDATED\<close> event.
\<close>

theorem task_same_instant:
  assumes "Task.UpdatedAt task = Task.CreatedAt task"
  shows "\<exists>evs. appendTaskActivities task activities = Inr (activities @ evs) \<and>
     map UserActivity.Action evs =
        (if Task.Status task = TaskStatusCompleted then [ActionCreated, ActionCompleted]
         else [ActionCreated]) \<and>
     map UserActivity.CreatedAt evs =
        (if Task.Status task = TaskStatusCompleted then [Task.CreatedAt task, Task.UpdatedAt task]
         else [Task.CreatedAt task]) \<and>
     (\<forall>ev \<in> set evs. UserActivity.Action ev \<noteq> ActionUpdated \<and> UserActivity.ItemID ev = Task.ID task)"
proof -
  obtain a where a: "createActivityFromTask task = Inr a"
    "UserActivity.CreatedAt a = Task.CreatedAt task" "UserActivity.ItemID a = Task.ID task"
    using createActivityFromTask_Inr by blast
  show ?thesis
    using assms a
    by (simp add: appendTaskActivities_def bind_res_def time_After_def time_Add_def Minute_def Let_def)
qed

theorem task_same_instant_witness:
  "Task.UpdatedAt task_pending = Task.CreatedAt task_pending \<and>
   (\<exists>evs. appendTaskActivities task_pending [] = Inr evs \<and>
      map UserActivity.Action evs = [ActionCreated] \<and>
      map UserActivity.CreatedAt evs = [1000])"
  using task_same_instant [of task_pending "[]"] by (auto simp add: task_pending_def)

text \<open>
  The claim C2 as stated fails on a completed task created and modified at the same
  instant: the loop appends two events, \<^verbatim>\<open>CREATED\<close> and \<^verbatim>\<open>COMPLETED\<close>.
\<close>

theorem task_same_instant_counterexample:
  "Task.UpdatedAt task_done = Task.CreatedAt task_done \<and>
   appendTaskActivities task_done [] =
     Inr [\<lparr>UserActivity.ID = 8, Type = ''TASK'', Action = ''CREATED'', Title = ''Send offer'',
           Detail = ''by mail'', ItemID = 8, CreatedAt = 2000, UpdatedAt = 2000,
           RelatedID = None, RelatedName = None\<rparr>,
          \<lparr>UserActivity.ID = 8, Type = ''TASK'', Action = ''COMPLETED'', Title = ''Send offer'',
           Detail = ''by mail'', ItemID = 8, CreatedAt = 2000, UpdatedAt = 2000,
           RelatedID = None, RelatedName = None\<rparr>]"
  by (simp add: appendTaskActivities_def createActivityFromTask_def truncateString_def
      bind_res_def task_done_def time_After_def time_Add_def Minute_def Let_def)

text \<open>
  C3, as the code has it. A completed task modified two minutes after its creation yields
  three events: \<^verbatim>\<open>CREATED\<close> at the creation time, then \<^verbatim>\<open>UPDATED\<close> and \<^verbatim>\<open>COMPLETED\<close>, both
  at the modification time.
\<close>

theorem task_two_minutes:
  assumes "Task.UpdatedAt task = time_Add (Task.CreatedAt task) (2 * Minute)"
      and "Task.Status task = TaskStatusCompleted"
  shows "\<exists>evs. appendTaskActivities task activities = Inr (activities @ evs) \<and>
     map UserActivity.Action evs = [ActionCreated, ActionUpdated, ActionCompleted] \<and>
     map UserActivity.CreatedAt evs =
        [Task.CreatedAt task, Task.UpdatedAt task, Task.UpdatedAt task] \<and>
     (\<forall>ev \<in> set evs. UserActivity.ItemID ev = Task.ID task)"
proof -
  obtain a where a: "createActivityFromTask task = Inr a"
    "UserActivity.CreatedAt a = Task.CreatedAt task" "UserActivity.ItemID a = Task.ID task"
    using createActivityFromTask_Inr by blast
  show ?thesis
    using assms a
    by (simp add: appendTaskActivities_def bind_res_def time_After_def time_Add_def Minute_def Let_def)
qed

theorem task_two_minutes_witness:
  "Task.UpdatedAt task_done_later = time_Add (Task.CreatedAt task_done_later) (2 * Minute) \<and>
   Task.Status task_done_later = TaskStatusCompleted \<and>
   (\<exists>evs. appendTaskActivities task_done_later [] = Inr evs \<and>
      map UserActivity.Action evs = [ActionCreated, ActionUpdated, ActionCompleted] \<and>
      map UserActivity.CreatedAt evs = [3000, 120000003000, 120000003000])"
  using task_two_minutes [of task_done_later "[]"]
  by (auto simp add: task_done_later_def time_Add_def Minute_def)

text \<open>
  The claim C3 as stated fails: the task yields three events, not two (the \<^verbatim>\<open>CREATED\<close>
  event comes first).
\<close>

theorem task_two_minutes_counterexample:
  "Task.UpdatedAt task_done_later = time_Add (Task.CreatedAt task_done_later) (2 * Minute) \<and>
   Task.Status task_done_later = TaskStatusCompleted \<and>
   appendTaskActivities task_done_later [] =
     Inr [\<lparr>UserActivity.ID = 9, Type = ''TASK'', Action = ''CREATED'', Title = ''Sign'',
           Detail = [], ItemID = 9, CreatedAt = 3000, UpdatedAt = 120000003000,
           RelatedID = None, RelatedName = None\<rparr>,
          \<lparr>UserActivity.ID = 9, Type = ''TASK'', Action = ''UPDATED'', Title = ''Sign'',
           Detail = [], ItemID = 9, CreatedAt = 120000003000, UpdatedAt = 120000003000,
           RelatedID = None, RelatedName = None\<rparr>,
          \<lparr>UserActivity.ID = 9, Type = ''TASK'', Action = ''COMPLETED'', Title = ''Sign'',
           Detail = [], ItemID = 9, CreatedAt = 120000003000, UpdatedAt = 120000003000,
           RelatedID = None, RelatedName = None\<rparr>]"
  by (simp add: appendTaskActivities_def createActivityFromTask_def truncateString_def
      bind_res_def task_done_later_def time_After_def time_Add_def Minute_def Let_def)

section \<open>The statistics snapshot\<close>

lemma statsContacts_cases:
  "statsContacts s userID st =
     (case contactRepo s of
        None \<Rightarrow> Inr st
      | Some repo \<Rightarrow>
          (case (ContactRepository.CountByUserID repo userID,
                 ContactRepository.CountByType repo userID ContactTypeClient,
                 ContactRepository.CountByType repo userID ContactTypeLead) of
             (Inr a, Inr b, Inr c) \<Rightarrow> Inr (st\<lparr>TotalContacts := a, TotalClients := b, TotalLeads := c\<rparr>)
           | _ \<Rightarrow> Inl ErrInternalServer))"
  by (simp add: statsContacts_def bind_res_def orErrInternalServer_def Let_def
      split: option.splits sum.splits)

lemma statsTasks_cases:
  "statsTasks s userID st =
     (case taskRepo s of
        None \<Rightarrow> Inr st
      | Some repo \<Rightarrow>
          (case (TaskRepository.CountByUserID repo userID,
                 TaskRepository.CountPendingByUserID repo userID) of
             (Inr a, Inr b) \<Rightarrow>
                Inr (st\<lparr>TotalTasks := a, PendingTasks := b, CompletedTasks := a - b,
                        OverdueTasks := (case TaskRepository.CountOverdueByUserID repo userID of
                                           Inl err \<Rightarrow> 0 | Inr n \<Rightarrow> n)\<rparr>)
           | _ \<Rightarrow> Inl ErrInternalServer))"
  by (simp add: statsTasks_def bind_res_def orErrInternalServer_def Let_def
      split: option.splits sum.splits)

lemma statsProjects_cases:
  "statsProjects s userID st =
     (case projectRepo s of
        None \<Rightarrow> Inr st
      | Some repo \<Rightarrow>
          (case (ProjectRepository.CountByUserID repo userID,
                 ProjectRepository.CountByStatus repo userID ProjectStatusInProgress,
                 ProjectRepository.CountByStatus repo userID ProjectStatusCompleted) of
             (Inr a, Inr b, Inr c) \<Rightarrow>
                Inr (st\<lparr>TotalProjects := a, ActiveProjects := b, CompletedProjects := c\<rparr>)
           | _ \<Rightarrow> Inl ErrInternalServer))"
  by (simp add: statsProjects_def bind_res_def orErrInternalServer_def Let_def
      split: option.splits sum.splits)

lemma statsInteractions_cases:
  "statsInteractions s userID st =
     (case interactionRepo s of
        None \<Rightarrow> Inr st
      | Some repo \<Rightarrow>
          (case InteractionRepository.GetByUserID repo userID InteractionListFilter_zero of
             Inr xs \<Rightarrow>
                Inr (st\<lparr>TotalInteractions := of_nat (length xs),
                        UserStats.RecentInteractions :=
                          (case InteractionRepository.GetRecentByUserID repo userID 7 100 of
                             Inl err \<Rightarrow> 0 | Inr ys \<Rightarrow> of_nat (length ys))\<rparr>)
           | Inl err \<Rightarrow> Inl ErrInternalServer))"
  by (simp add: statsInteractions_def bind_res_def orErrInternalServer_def Let_def
      split: option.splits sum.splits)

lemmas stats_cases = statsContacts_cases statsTasks_cases statsProjects_cases statsInteractions_cases


lemma statsContacts_fail:
  "\<not> contactQueriesSucceed s userID \<Longrightarrow> statsContacts s userID st = Inl ErrInternalServer"
  by (auto simp: statsContacts_cases contactQueriesSucceed_def split: option.splits sum.splits)

lemma statsContacts_ok:
  "contactQueriesSucceed s userID \<Longrightarrow>
   \<exists>st'. statsContacts s userID st = Inr st' \<and>
     TotalTasks st' = TotalTasks st \<and> PendingTasks st' = PendingTasks st \<and>
     CompletedTasks st' = CompletedTasks st \<and> OverdueTasks st' = OverdueTasks st \<and>
     UserStats.RecentInteractions st' = UserStats.RecentInteractions st"
  by (auto simp: statsContacts_cases contactQueriesSucceed_def split: option.splits sum.splits)

lemma statsTasks_fail:
  "\<not> taskQueriesSucceed s userID \<Longrightarrow> statsTasks s userID st = Inl ErrInternalServer"
  by (auto simp: statsTasks_cases taskQueriesSucceed_def split: option.splits sum.splits)

lemma statsTasks_ok:
  "taskQueriesSucceed s userID \<Longrightarrow>
   \<exists>st'. statsTasks s userID st = Inr st' \<and>
     (taskRepo s = None \<longrightarrow> st' = st) \<and>
     (taskRepo s \<noteq> None \<longrightarrow>
        CompletedTasks st' = TotalTasks st' - PendingTasks st' \<and>
        OverdueTasks st' = overdueOrZero s userID) \<and>
     UserStats.RecentInteractions st' = UserStats.RecentInteractions st"
  by (auto simp: statsTasks_cases taskQueriesSucceed_def overdueOrZero_def
      split: option.splits sum.splits)

lemma statsProjects_fail:
  "\<not> projectQueriesSucceed s userID \<Longrightarrow> statsProjects s userID st = Inl ErrInternalServer"
  by (auto simp: statsProjects_cases projectQueriesSucceed_def split: option.splits sum.splits)

lemma statsProjects_ok:
  "projectQueriesSucceed s userID \<Longrightarrow>
   \<exists>st'. statsProjects s userID st = Inr st' \<and>
     TotalTasks st' = TotalTasks st \<and> PendingTasks st' = PendingTasks st \<and>
     CompletedTasks st' = CompletedTasks st \<and> OverdueTasks st' = OverdueTasks st \<and>
     UserStats.RecentInteractions st' = UserStats.RecentInteractions st"
  by (auto simp: statsProjects_cases projectQueriesSucceed_def split: option.splits sum.splits)

lemma statsInteractions_fail:
  "\<not> interactionQueriesSucceed s userID \<Longrightarrow>
   statsInteractions s userID st = Inl ErrInternalServer"
  by (auto simp: statsInteractions_cases interactionQueriesSucceed_def
      split: option.splits sum.splits)

lemma statsInteractions_ok:
  "interactionQueriesSucceed s userID \<Longrightarrow>
   \<exists>st'. statsInteractions s userID st = Inr st' \<and>
     TotalTasks st' = TotalTasks st \<and> PendingTasks st' = PendingTasks st \<and>
     CompletedTasks st' = CompletedTasks st \<and> OverdueTasks st' = OverdueTasks st \<and>
     (interactionRepo s = None \<longrightarrow>
        UserStats.RecentInteractions st' = UserStats.RecentInteractions st) \<and>
     (interactionRepo s \<noteq> None \<longrightarrow>
        UserStats.RecentInteractions st' = recentOrZero s userID)"
  by (auto simp: statsInteractions_cases interactionQueriesSucceed_def recentOrZero_def
      split: option.splits sum.splits)

lemma GetUserStats_fail:
  assumes "\<not> statsQueriesSucceed s userID"
  shows "GetUserStats s userID = Inl ErrInternalServer"
proof (cases "contactQueriesSucceed s userID")
  case False
  then show ?thesis
    by (simp add: GetUserStats_def statsContacts_fail bind_res_def)
next
  case c: True
  then obtain st1 where st1: "statsContacts s userID UserStats_zero = Inr st1"
    using statsContacts_ok by blast
  show ?thesis
  proof (cases "taskQueriesSucceed s userID")
    case False
    then show ?thesis
      by (simp add: GetUserStats_def st1 statsTasks_fail bind_res_def)
  next
    case t: True
    then obtain st2 where st2: "statsTasks s userID st1 = Inr st2"
      using statsTasks_ok by blast
    show ?thesis
    proof (cases "projectQueriesSucceed s userID")
      case False
      then show ?thesis
        by (simp add: GetUserStats_def st1 st2 statsProjects_fail bind_res_def)
    next
      case p: True
      then obtain st3 where st3: "statsProjects s userID st2 = Inr st3"
        using statsProjects_ok by blast
      from assms c t p have "\<not> interactionQueriesSucceed s userID"
        by (simp add: statsQueriesSucceed_def)
      then show ?thesis
        by (simp add: GetUserStats_def st1 st2 st3 statsInteractions_fail bind_res_def)
    qed
  qed
qed

lemma GetUserStats_ok:
  assumes "statsQueriesSucceed s userID"
  shows "\<exists>stats. GetUserStats s userID = Inr stats \<and>
           OverdueTasks stats = overdueOrZero s userID \<and>
           UserStats.RecentInteractions stats = recentOrZero s userID \<and>
           CompletedTasks stats = TotalTasks stats - PendingTasks stats"
proof -
  from assms have c: "contactQueriesSucceed s userID" and t: "taskQueriesSucceed s userID"
    and p: "projectQueriesSucceed s userID" and i: "interactionQueriesSucceed s userID"
    by (simp_all add: statsQueriesSucceed_def)
  from statsContacts_ok [OF c, of UserStats_zero]
  obtain st1 where st1: "statsContacts s userID UserStats_zero = Inr st1"
    "TotalTasks st1 = 0" "PendingTasks st1 = 0" "CompletedTasks st1 = 0" "OverdueTasks st1 = 0"
    "UserStats.RecentInteractions st1 = 0"
    by (auto simp: UserStats_zero_def)
  from statsTasks_ok [OF t, of st1]
  obtain st2 where st2: "statsTasks s userID st1 = Inr st2"
    "CompletedTasks st2 = TotalTasks st2 - PendingTasks st2"
    "OverdueTasks st2 = overdueOrZero s userID" "UserStats.RecentInteractions st2 = 0"
    using st1 by (cases "taskRepo s") (auto simp: overdueOrZero_def)
  from statsProjects_ok [OF p, of st2]
  obtain st3 where st3: "statsProjects s userID st2 = Inr st3"
    "CompletedTasks st3 = TotalTasks st3 - PendingTasks st3"
    "OverdueTasks st3 = overdueOrZero s userID" "UserStats.RecentInteractions st3 = 0"
    using st2 by auto
  from statsInteractions_ok [OF i, of st3]
  obtain st4 where st4: "statsInteractions s userID st3 = Inr st4"
    "CompletedTasks st4 = TotalTasks st4 - PendingTasks st4"
    "OverdueTasks st4 = overdueOrZero s userID"
    "UserStats.RecentInteractions st4 = recentOrZero s userID"
    using st3 by (cases "interactionRepo s") (auto simp: recentOrZero_def)
  show ?thesis
    using st1(1) st2(1) st3(1) st4 by (simp add: GetUserStats_def bind_res_def)
qed


lemmas fixture_defs =
  contact_ana_def task_pending_def task_done_def task_done_later_def project_site_def
  interaction_call_def contacts_up_def contacts_down_def tasks_up_def tasks_overdue_down_def
  projects_up_def interactions_up_def interactions_recent_down_def svc_up_def
  svc_degraded_def svc_contacts_down_def contacts_flaky_def svc_contacts_flaky_def
  svc_empty_def

text \<open>
  C1, as the code has it. \<^verbatim>\<open>GetUserStats\<close> succeeds exactly when every query other than
  the overdue-task count and the recent-interaction listing succeeds on each repository
  that is not nil. Only those two counters fall back to zero when their query fails; an
  error of any other query makes the whole call fail with \<^verbatim>\<open>ErrInternalServer\<close>.
\<close>

theorem GetUserStats_degrades:
  "(statsQueriesSucceed s userID \<longrightarrow>
      (\<exists>stats. GetUserStats s userID = Inr stats \<and>
         OverdueTasks stats = overdueOrZero s userID \<and>
         UserStats.RecentInteractions stats = recentOrZero s userID)) \<and>
   (\<not> statsQueriesSucceed s userID \<longrightarrow> GetUserStats s userID = Inl ErrInternalServer)"
  using GetUserStats_ok [of s userID] GetUserStats_fail [of s userID] by blast

lemma svc_degraded_queries:
  "statsQueriesSucceed svc_degraded 1 \<and> overdueOrZero svc_degraded 1 = 0 \<and>
   recentOrZero svc_degraded 1 = 0"
  by (simp add: statsQueriesSucceed_def contactQueriesSucceed_def taskQueriesSucceed_def
      projectQueriesSucceed_def interactionQueriesSucceed_def overdueOrZero_def
      recentOrZero_def fixture_defs)

lemma svc_contacts_down_queries: "\<not> statsQueriesSucceed svc_contacts_down 1"
  by (simp add: statsQueriesSucceed_def contactQueriesSucceed_def fixture_defs)

theorem GetUserStats_degrades_witness:
  "statsQueriesSucceed svc_degraded 1 \<and>
   TaskRepository.CountOverdueByUserID tasks_overdue_down 1 = Inl RepositoryError \<and>
   InteractionRepository.GetRecentByUserID interactions_recent_down 1 7 100
     = Inl RepositoryError \<and>
   (\<exists>stats. GetUserStats svc_degraded 1 = Inr stats \<and>
      OverdueTasks stats = 0 \<and> UserStats.RecentInteractions stats = 0) \<and>
   \<not> statsQueriesSucceed svc_contacts_down 1 \<and>
   GetUserStats svc_contacts_down 1 = Inl ErrInternalServer"
  using GetUserStats_degrades [of svc_degraded 1] GetUserStats_degrades [of svc_contacts_down 1]
    svc_degraded_queries svc_contacts_down_queries
  by (auto simp add: tasks_overdue_down_def interactions_recent_down_def)

text \<open>
  The claim C1 as stated fails when the contact total cannot be counted: the call returns
  the error and no snapshot.
\<close>

theorem GetUserStats_degrades_counterexample:
  "ContactRepository.CountByUserID contacts_down 1 = Inl RepositoryError \<and>
   GetUserStats svc_contacts_down 1 = Inl ErrInternalServer"
  by (simp add: GetUserStats_def statsContacts_def bind_res_def orErrInternalServer_def
      svc_contacts_down_def contacts_down_def)

text \<open>
  C10. In every snapshot that \<^verbatim>\<open>GetUserStats\<close> returns, \<^verbatim>\<open>CompletedTasks\<close> is
  \<^verbatim>\<open>TotalTasks - PendingTasks\<close> (in 64-bit arithmetic, as the code computes it), so
  \<^verbatim>\<open>PendingTasks + CompletedTasks = TotalTasks\<close>.
\<close>

theorem GetUserStats_completed:
  assumes "GetUserStats s userID = Inr stats"
  shows "CompletedTasks stats = TotalTasks stats - PendingTasks stats \<and>
         PendingTasks stats + CompletedTasks stats = TotalTasks stats"
proof -
  have ok: "statsQueriesSucceed s userID"
    using assms GetUserStats_fail [of s userID] by auto
  from GetUserStats_ok [OF ok] assms show ?thesis by auto
qed

lemma GetUserStats_svc_up: "GetUserStats svc_up 1 = Inr stats_up"
  by (simp add: GetUserStats_def stats_cases fixture_defs UserStats_zero_def stats_up_def
      bind_res_def)

theorem GetUserStats_completed_witness:
  "GetUserStats svc_up 1 = Inr stats_up \<and>
   CompletedTasks stats_up = TotalTasks stats_up - PendingTasks stats_up \<and>
   PendingTasks stats_up + CompletedTasks stats_up = TotalTasks stats_up \<and>
   TotalTasks stats_up = 2 \<and> PendingTasks stats_up = 1 \<and> CompletedTasks stats_up = 1"
  using GetUserStats_completed [OF GetUserStats_svc_up] GetUserStats_svc_up
  by (simp add: stats_up_def)

section \<open>The activity feed\<close>

lemma mset_insert_by: "mset (insert_by lt x ys) = add_mset x (mset ys)"
  by (induction ys) auto

lemma set_insert_by: "set (insert_by lt x ys) = insert x (set ys)"
  by (induction ys) auto

lemma sorted_insert_by:
  assumes "strict_weak_ordering lt" and "sorted_wrt (\<lambda>a b. \<not> lt b a) ys"
  shows "sorted_wrt (\<lambda>a b. \<not> lt b a) (insert_by lt x ys)"
  using assms(2)
proof (induction ys)
  case Nil
  then show ?case by simp
next
  case (Cons y ys)
  from assms(1) have irr: "\<not> lt x x"
    and tr: "\<And>c. lt c x \<Longrightarrow> lt x y \<Longrightarrow> lt c y"
    unfolding strict_weak_ordering_def by blast+
  from Cons.prems have y: "\<forall>z \<in> set ys. \<not> lt z y" and ys: "sorted_wrt (\<lambda>a b. \<not> lt b a) ys"
    by simp_all
  show ?case
  proof (cases "lt x y")
    case True
    have "\<not> lt y x"
    proof
      assume "lt y x"
      from tr [OF this True] have "lt y y" .
      moreover from assms(1) have "\<not> lt y y" unfolding strict_weak_ordering_def by blast
      ultimately show False by simp
    qed
    moreover have "\<forall>z \<in> set ys. \<not> lt z x"
    proof
      fix z assume "z \<in> set ys"
      with y have "\<not> lt z y" by blast
      with tr [of z, OF _ True] show "\<not> lt z x" by blast
    qed
    ultimately show ?thesis using True y ys by simp
  next
    case False
    from Cons.IH [OF ys] have "sorted_wrt (\<lambda>a b. \<not> lt b a) (insert_by lt x ys)" .
    with False y show ?thesis by (simp add: set_insert_by)
  qed
qed

lemma foldl_insert_by:
  assumes "strict_weak_ordering lt" and "sorted_wrt (\<lambda>a b. \<not> lt b a) acc"
  shows "mset (foldl (\<lambda>sorted x. insert_by lt x sorted) acc xs) = mset acc + mset xs \<and>
         sorted_wrt (\<lambda>a b. \<not> lt b a) (foldl (\<lambda>sorted x. insert_by lt x sorted) acc xs)"
  using assms(2)
proof (induction xs arbitrary: acc)
  case Nil
  then show ?case by simp
next
  case (Cons x xs)
  have "sorted_wrt (\<lambda>a b. \<not> lt b a) (insert_by lt x acc)"
    using sorted_insert_by [OF assms(1) Cons.prems] .
  from Cons.IH [OF this] show ?case by (simp add: mset_insert_by)
qed

lemma insertionSort_contract: "sort_Slice_contract insertionSort"
  unfolding sort_Slice_contract_def insertionSort_def
proof (intro allI impI)
  fix lt :: "'a \<Rightarrow> 'a \<Rightarrow> bool" and xs
  assume "strict_weak_ordering lt"
  from foldl_insert_by [OF this, of "[]" xs]
  show "mset (foldl (\<lambda>sorted x. insert_by lt x sorted) [] xs) = mset xs \<and>
        sorted_wrt (\<lambda>a b. \<not> lt b a) (foldl (\<lambda>sorted x. insert_by lt x sorted) [] xs)"
    by simp
qed

lemma after_strict_weak:
  "strict_weak_ordering
     (\<lambda>ai aj. time_After (UserActivity.CreatedAt ai) (UserActivity.CreatedAt aj))"
  by (auto simp: strict_weak_ordering_def time_After_def)

lemma sortActivitiesByDate_contract:
  assumes "sort_Slice_contract sort_Slice"
  shows "mset (sortActivitiesByDate sort_Slice activities) = mset activities \<and>
         sorted_wrt (\<lambda>a b. UserActivity.CreatedAt b \<le> UserActivity.CreatedAt a)
           (sortActivitiesByDate sort_Slice activities)"
proof -
  let ?lt = "\<lambda>ai aj. time_After (UserActivity.CreatedAt ai) (UserActivity.CreatedAt aj)"
  from assms after_strict_weak
  have "mset (sort_Slice ?lt activities) = mset activities"
    and s: "sorted_wrt (\<lambda>a b. \<not> ?lt b a) (sort_Slice ?lt activities)"
    unfolding sort_Slice_contract_def by blast+
  moreover from s have "sorted_wrt (\<lambda>a b. UserActivity.CreatedAt b \<le> UserActivity.CreatedAt a)
                          (sort_Slice ?lt activities)"
    by (simp add: time_After_def not_less)
  ultimately show ?thesis by (simp add: sortActivitiesByDate_def)
qed

lemma bind_res_InrE:
  assumes "bind_res m f = Inr r"
  obtains x where "m = Inr x" and "f x = Inr r"
  using assms by (cases m) (auto simp: bind_res_def)


lemma GetRecentActivities_InrD:
  assumes "GetRecentActivities sort_Slice s userID limit0 = Inr r"
  shows "\<exists>activities.
           Activities r = limited (if limit0 \<le> 0 then 20 else limit0)
                            (sortActivitiesByDate sort_Slice activities) \<and>
           Count r = int (length (Activities r))"
  using assms unfolding GetRecentActivities_def Let_def
  by (elim bind_res_InrE) (auto simp: limited_def)

lemma limited_length: "0 \<le> limit \<Longrightarrow> int (length (limited limit xs)) \<le> limit"
  by (simp add: limited_def)

lemma limited_sorted: "sorted_wrt P xs \<Longrightarrow> sorted_wrt P (limited limit xs)"
  by (simp add: limited_def sorted_wrt_take)

lemmas feed_defs =
  GetRecentActivities_def bind_res_def receiver_def orErrInternalServer_def Let_def
  wrap_int_def sortActivitiesByDate_def insertionSort_def
  appendInteractionActivities_def appendTaskActivities_def appendProjectActivities_def
  appendContactActivities_def createActivityFromInteraction_def createActivityFromTask_def
  createActivityFromProject_def createActivityFromContact_def truncateString_def
  time_After_def time_Add_def Minute_def TaskListFilter_zero_def ProjectListFilter_zero_def
  ContactListFilter_zero_def InteractionListFilter_zero_def

lemma feed_svc_up_default:
  "GetRecentActivities insertionSort svc_up 1 0 = Inr \<lparr>Activities = feed_up, Count = 6\<rparr>"
  by (simp add: feed_defs fixture_defs feed_up_def)

lemma feed_svc_up_2:
  "GetRecentActivities insertionSort svc_up 1 2 = Inr \<lparr>Activities = take 2 feed_up, Count = 2\<rparr>"
  by (simp add: feed_defs fixture_defs feed_up_def)

lemma noRecords_svc_empty: "noRecords svc_empty 1"
  by (simp add: noRecords_def svc_empty_def)

text \<open>
  C9. A limit that is zero or negative is replaced by 20, and the \<^verbatim>\<open>Count\<close> of every
  response that \<^verbatim>\<open>GetRecentActivities\<close> returns is the length of its \<^verbatim>\<open>Activities\<close>.
\<close>

theorem GetRecentActivities_default_count:
  "(limit \<le> 0 \<longrightarrow>
      GetRecentActivities sort_Slice s userID limit = GetRecentActivities sort_Slice s userID 20) \<and>
   (\<forall>r. GetRecentActivities sort_Slice s userID limit = Inr r \<longrightarrow>
      Count r = int (length (Activities r)))"
proof (intro conjI impI allI)
  assume "limit \<le> 0"
  then show "GetRecentActivities sort_Slice s userID limit = GetRecentActivities sort_Slice s userID 20"
    by (simp add: GetRecentActivities_def)
next
  fix r assume "GetRecentActivities sort_Slice s userID limit = Inr r"
  from GetRecentActivities_InrD [OF this] show "Count r = int (length (Activities r))" by blast
qed

theorem GetRecentActivities_default_count_witness:
  "(0::int) \<le> 0 \<and>
   GetRecentActivities insertionSort svc_up 1 0 = GetRecentActivities insertionSort svc_up 1 20 \<and>
   GetRecentActivities insertionSort svc_up 1 0 = Inr \<lparr>Activities = feed_up, Count = 6\<rparr> \<and>
   Count \<lparr>Activities = feed_up, Count = 6\<rparr> = int (length feed_up)"
  using GetRecentActivities_default_count [of 0 insertionSort svc_up 1] feed_svc_up_default
  by simp

text \<open>
  C5. When \<^verbatim>\<open>sort.Slice\<close> meets its contract and the limit is positive, the feed that
  \<^verbatim>\<open>GetRecentActivities\<close> returns has at most \<^verbatim>\<open>limit\<close> events, and no event is newer than
  one before it.
\<close>

theorem GetRecentActivities_bounded_sorted:
  assumes "sort_Slice_contract sort_Slice" and "0 < limit"
      and "GetRecentActivities sort_Slice s userID limit = Inr r"
  shows "int (length (Activities r)) \<le> limit \<and>
         (\<forall>i j. i < j \<and> j < length (Activities r) \<longrightarrow>
            UserActivity.CreatedAt (Activities r ! j) \<le> UserActivity.CreatedAt (Activities r ! i))"
proof -
  from GetRecentActivities_InrD [OF assms(3)] assms(2)
  obtain activities where
    r: "Activities r = limited limit (sortActivitiesByDate sort_Slice activities)"
    by auto
  have "sorted_wrt (\<lambda>a b. UserActivity.CreatedAt b \<le> UserActivity.CreatedAt a) (Activities r)"
    unfolding r using sortActivitiesByDate_contract [OF assms(1)] by (intro limited_sorted) blast
  then have "\<forall>i j. i < j \<and> j < length (Activities r) \<longrightarrow>
            UserActivity.CreatedAt (Activities r ! j) \<le> UserActivity.CreatedAt (Activities r ! i)"
    by (simp add: sorted_wrt_iff_nth_less)
  moreover have "int (length (Activities r)) \<le> limit"
    unfolding r using assms(2) by (intro limited_length) simp
  ultimately show ?thesis by blast
qed

theorem GetRecentActivities_bounded_sorted_witness:
  "sort_Slice_contract (insertionSort :: UserActivity sort_Slice) \<and> (0::int) < 2 \<and>
   GetRecentActivities insertionSort svc_up 1 2
     = Inr \<lparr>Activities = take 2 feed_up, Count = 2\<rparr> \<and>
   int (length (take 2 feed_up)) \<le> 2 \<and>
   map UserActivity.CreatedAt (take 2 feed_up) = [4000, 2000]"
  using GetRecentActivities_bounded_sorted [OF insertionSort_contract _ feed_svc_up_2]
    insertionSort_contract feed_svc_up_2
  by (simp add: feed_up_def)

lemma noRecords_result:
  assumes "sort_Slice_contract sort_Slice" and "noRecords s userID"
  shows "GetRecentActivities sort_Slice s userID limit = Inr \<lparr>Activities = [], Count = 0\<rparr>"
proof -
  from sortActivitiesByDate_contract [OF assms(1), of "[]"]
  have e: "sortActivitiesByDate sort_Slice [] = []" by simp
  from assms(2) show ?thesis
    unfolding noRecords_def
    by (auto simp: GetRecentActivities_def bind_res_def receiver_def orErrInternalServer_def e)
qed

text \<open>
  C8, as the code has it. The feed has at most \<^verbatim>\<open>limit\<close> events, where a limit that is
  zero or negative counts as 20; and it is empty when the owner has no record in any of the
  four sources.
\<close>

theorem GetRecentActivities_length:
  "(\<forall>r. GetRecentActivities sort_Slice s userID limit = Inr r \<longrightarrow>
      int (length (Activities r)) \<le> (if limit \<le> 0 then 20 else limit)) \<and>
   (sort_Slice_contract sort_Slice \<and> noRecords s userID \<longrightarrow>
      GetRecentActivities sort_Slice s userID limit = Inr \<lparr>Activities = [], Count = 0\<rparr>)"
proof (intro conjI impI allI)
  fix r assume "GetRecentActivities sort_Slice s userID limit = Inr r"
  from GetRecentActivities_InrD [OF this]
  obtain activities where
    r: "Activities r = limited (if limit \<le> 0 then 20 else limit)
                         (sortActivitiesByDate sort_Slice activities)"
    by auto
  show "int (length (Activities r)) \<le> (if limit \<le> 0 then 20 else limit)"
    unfolding r by (intro limited_length) simp
next
  assume "sort_Slice_contract sort_Slice \<and> noRecords s userID"
  then show "GetRecentActivities sort_Slice s userID limit = Inr \<lparr>Activities = [], Count = 0\<rparr>"
    using noRecords_result by blast
qed

theorem GetRecentActivities_length_witness:
  "GetRecentActivities insertionSort svc_up 1 0 = Inr \<lparr>Activities = feed_up, Count = 6\<rparr> \<and>
   int (length feed_up) \<le> 20 \<and>
   sort_Slice_contract (insertionSort :: UserActivity sort_Slice) \<and> noRecords svc_empty 1 \<and>
   GetRecentActivities insertionSort svc_empty 1 0 = Inr \<lparr>Activities = [], Count = 0\<rparr>"
proof -
  have c: "sort_Slice_contract (insertionSort :: UserActivity sort_Slice)"
    by (rule insertionSort_contract)
  from GetRecentActivities_length [of insertionSort svc_empty 1 0] c noRecords_svc_empty
  have e: "GetRecentActivities insertionSort svc_empty 1 0 = Inr \<lparr>Activities = [], Count = 0\<rparr>"
    by blast
  from GetRecentActivities_length [of insertionSort svc_up 1 0] feed_svc_up_default
  have l: "int (length feed_up) \<le> 20"
    by simp
  from c e l feed_svc_up_default noRecords_svc_empty show ?thesis
    by simp
qed

text \<open>
  The claim C8 as stated fails for the limit 0: the feed of an owner with six events has
  six events, more than \<^verbatim>\<open>max(0, 1)\<close>.
\<close>

theorem GetRecentActivities_length_counterexample:
  "GetRecentActivities insertionSort svc_up 1 0 = Inr \<lparr>Activities = feed_up, Count = 6\<rparr> \<and>
   length feed_up = 6 \<and> \<not> int (length feed_up) \<le> max 0 1"
  using feed_svc_up_default by (simp add: feed_up_def)

section \<open>The dashboard\<close>

lemma GetDashboardData_stats_fail:
  "GetUserStats s userID = Inl e \<Longrightarrow> GetDashboardData sort_Slice s userID = Inl e"
  by (simp add: GetDashboardData_def bind_res_def)

lemma GetDashboardData_feed_fail:
  "GetUserStats s userID = Inr stats \<Longrightarrow> GetRecentActivities sort_Slice s userID 10 = Inl e \<Longrightarrow>
   GetDashboardData sort_Slice s userID = Inl e"
  by (simp add: GetDashboardData_def bind_res_def)

lemma step3_interactions:
  "(case interactionRepo s of
      None \<Rightarrow> dashboardData
    | Some repo \<Rightarrow>
        let recentFilter =
              InteractionListFilter_zero\<lparr>InteractionListFilter.Limit := 5\<rparr> in
        (case InteractionRepository.GetByUserID repo userID recentFilter of
           Inl err \<Rightarrow> dashboardData
         | Inr recentInteractions \<Rightarrow>
             dashboardData\<lparr>RecentInteractions :=
               DashboardData.RecentInteractions dashboardData
                 @ map dashboardInteraction recentInteractions\<rparr>))
   = dashboardData\<lparr>RecentInteractions :=
       DashboardData.RecentInteractions dashboardData @ recentInteractionsOrEmpty s userID\<rparr>"
  by (simp add: recentInteractionsOrEmpty_def Let_def split: option.splits sum.splits)

lemma step3_projects:
  "(case projectRepo s of
      None \<Rightarrow> dashboardData
    | Some repo \<Rightarrow>
        let activeFilter =
              ProjectListFilter_zero\<lparr>ProjectListFilter.Status := ''IN_PROGRESS'',
                                     ProjectListFilter.Limit := 5\<rparr> in
        (case ProjectRepository.GetByUserID repo userID activeFilter of
           Inl err \<Rightarrow> dashboardData
         | Inr activeProjects \<Rightarrow>
             dashboardData\<lparr>RecentProjects :=
               RecentProjects dashboardData @ map dashboardProject activeProjects\<rparr>))
   = dashboardData\<lparr>RecentProjects :=
       RecentProjects dashboardData @ recentProjectsOrEmpty s userID\<rparr>"
  by (simp add: recentProjectsOrEmpty_def Let_def split: option.splits sum.splits)

lemma step3_tasks:
  "(case taskRepo s of
      None \<Rightarrow> dashboardData
    | Some repo \<Rightarrow>
        let pendingFilter =
              TaskListFilter_zero\<lparr>TaskListFilter.Status := TaskStatusPending,
                                  TaskListFilter.Limit := 5\<rparr> in
        (case TaskRepository.GetByUserID repo userID pendingFilter of
           Inl err \<Rightarrow> dashboardData
         | Inr pendingTasks \<Rightarrow>
             dashboardData\<lparr>RecentPendingTasks :=
               RecentPendingTasks dashboardData @ map dashboardTask pendingTasks\<rparr>))
   = dashboardData\<lparr>RecentPendingTasks :=
       RecentPendingTasks dashboardData @ recentPendingTasksOrEmpty s userID\<rparr>"
  by (simp add: recentPendingTasksOrEmpty_def Let_def split: option.splits sum.splits)

lemma step3_contacts:
  "(case contactRepo s of
      None \<Rightarrow> dashboardData
    | Some repo \<Rightarrow>
        let recentContactFilter =
              ContactListFilter_zero\<lparr>ContactListFilter.Limit := 5\<rparr> in
        (case ContactRepository.GetByUserID repo userID recentContactFilter of
           Inl err \<Rightarrow> dashboardData
         | Inr contacts \<Rightarrow>
             dashboardData\<lparr>RecentContacts :=
               RecentContacts dashboardData @ map dashboardContact contacts\<rparr>))
   = dashboardData\<lparr>RecentContacts :=
       RecentContacts dashboardData @ recentContactsOrEmpty s userID\<rparr>"
  by (simp add: recentContactsOrEmpty_def Let_def split: option.splits sum.splits)

lemma GetDashboardData_ok:
  assumes "GetUserStats s userID = Inr stats"
      and "GetRecentActivities sort_Slice s userID 10 = Inr r"
  shows "GetDashboardData sort_Slice s userID =
           Inr \<lparr>Stats = stats,
                RecentActivities = Activities r,
                RecentProjects = recentProjectsOrEmpty s userID,
                RecentInteractions = recentInteractionsOrEmpty s userID,
                RecentPendingTasks = recentPendingTasksOrEmpty s userID,
                RecentContacts = recentContactsOrEmpty s userID\<rparr>"
  unfolding GetDashboardData_def step3_interactions step3_projects step3_tasks step3_contacts
  using assms by (simp add: bind_res_def Let_def)

lemma GetDashboardData_contacts_down:
  assumes "contactRepo s = Some repo" and "ContactRepository.CountByUserID repo userID = Inl e"
  shows "GetDashboardData sort_Slice s userID = Inl ErrInternalServer"
proof -
  have "\<not> statsQueriesSucceed s userID"
    using assms by (simp add: statsQueriesSucceed_def contactQueriesSucceed_def)
  then have "GetUserStats s userID = Inl ErrInternalServer"
    by (rule GetUserStats_fail)
  then show ?thesis by (rule GetDashboardData_stats_fail)
qed

text \<open>
  C6, as the code has it. \<^verbatim>\<open>GetDashboardData\<close> fails with the error of \<^verbatim>\<open>GetUserStats\<close>
  or of \<^verbatim>\<open>GetRecentActivities\<close> (limit 10) when one of them fails; in particular it fails
  when the contact repository cannot count the owner's contacts. When both succeed it
  returns a snapshot with their results, in which each list of step 3 holds the
  projections of the rows of its query, and is empty when that query fails (or the
  repository is nil).
\<close>

theorem GetDashboardData_composition:
  "(\<forall>e. GetUserStats s userID = Inl e \<longrightarrow> GetDashboardData sort_Slice s userID = Inl e) \<and>
   (\<forall>stats e. GetUserStats s userID = Inr stats \<and>
        GetRecentActivities sort_Slice s userID 10 = Inl e \<longrightarrow>
        GetDashboardData sort_Slice s userID = Inl e) \<and>
   (\<forall>stats r. GetUserStats s userID = Inr stats \<and>
        GetRecentActivities sort_Slice s userID 10 = Inr r \<longrightarrow>
        GetDashboardData sort_Slice s userID =
           Inr \<lparr>Stats = stats,
                RecentActivities = Activities r,
                RecentProjects = recentProjectsOrEmpty s userID,
                RecentInteractions = recentInteractionsOrEmpty s userID,
                RecentPendingTasks = recentPendingTasksOrEmpty s userID,
                RecentContacts = recentContactsOrEmpty s userID\<rparr>) \<and>
   (\<forall>repo e. contactRepo s = Some repo \<and> ContactRepository.CountByUserID repo userID = Inl e \<longrightarrow>
        GetDashboardData sort_Slice s userID = Inl ErrInternalServer)"
  using GetDashboardData_stats_fail GetDashboardData_feed_fail GetDashboardData_ok
    GetDashboardData_contacts_down
  by blast

lemma stats_svc_contacts_flaky: "GetUserStats svc_contacts_flaky 1 = Inr stats_up"
  by (simp add: GetUserStats_def stats_cases fixture_defs UserStats_zero_def stats_up_def
      bind_res_def)

lemma stats_svc_degraded: "GetUserStats svc_degraded 1 = Inr stats_degraded"
  by (simp add: GetUserStats_def stats_cases fixture_defs UserStats_zero_def stats_degraded_def
      bind_res_def)

lemma feed_svc_contacts_flaky:
  "GetRecentActivities insertionSort svc_contacts_flaky 1 10
     = Inr \<lparr>Activities = feed_up, Count = 6\<rparr>"
  by (simp add: feed_defs fixture_defs feed_up_def)

lemma feed_svc_degraded:
  "GetRecentActivities insertionSort svc_degraded 1 10 = Inl ErrInternalServer"
  by (simp add: feed_defs fixture_defs)

lemma step3_svc_contacts_flaky:
  "recentProjectsOrEmpty svc_contacts_flaky 1 = RecentProjects dashboard_flaky \<and>
   recentInteractionsOrEmpty svc_contacts_flaky 1
     = DashboardData.RecentInteractions dashboard_flaky \<and>
   recentPendingTasksOrEmpty svc_contacts_flaky 1 = RecentPendingTasks dashboard_flaky \<and>
   recentContactsOrEmpty svc_contacts_flaky 1 = []"
  by (simp add: recentProjectsOrEmpty_def recentInteractionsOrEmpty_def
      recentPendingTasksOrEmpty_def recentContactsOrEmpty_def dashboard_flaky_def
      dashboardProject_def dashboardInteraction_def dashboardTask_def fixture_defs
      TaskListFilter_zero_def ProjectListFilter_zero_def ContactListFilter_zero_def
      InteractionListFilter_zero_def)

theorem GetDashboardData_composition_witness:
  "GetUserStats svc_contacts_flaky 1 = Inr stats_up \<and>
   GetRecentActivities insertionSort svc_contacts_flaky 1 10
     = Inr \<lparr>Activities = feed_up, Count = 6\<rparr> \<and>
   GetDashboardData insertionSort svc_contacts_flaky 1 = Inr dashboard_flaky \<and>
   RecentContacts dashboard_flaky = [] \<and>
   GetUserStats svc_degraded 1 = Inr stats_degraded \<and>
   GetRecentActivities insertionSort svc_degraded 1 10 = Inl ErrInternalServer \<and>
   GetDashboardData insertionSort svc_degraded 1 = Inl ErrInternalServer \<and>
   GetUserStats svc_contacts_down 1 = Inl ErrInternalServer \<and>
   contactRepo svc_contacts_down = Some contacts_down \<and>
   ContactRepository.CountByUserID contacts_down 1 = Inl RepositoryError \<and>
   GetDashboardData insertionSort svc_contacts_down 1 = Inl ErrInternalServer"
proof -
  have down: "\<not> statsQueriesSucceed svc_contacts_down 1"
    by (rule svc_contacts_down_queries)
  have sd: "GetUserStats svc_contacts_down 1 = Inl ErrInternalServer"
    using down by (rule GetUserStats_fail)
  have d1: "GetDashboardData insertionSort svc_contacts_flaky 1 = Inr dashboard_flaky"
    using GetDashboardData_composition [of svc_contacts_flaky 1 insertionSort]
      stats_svc_contacts_flaky feed_svc_contacts_flaky step3_svc_contacts_flaky
    by (simp add: dashboard_flaky_def)
  have d2: "GetDashboardData insertionSort svc_degraded 1 = Inl ErrInternalServer"
    using GetDashboardData_composition [of svc_degraded 1 insertionSort]
      stats_svc_degraded feed_svc_degraded
    by simp
  have d3: "GetDashboardData insertionSort svc_contacts_down 1 = Inl ErrInternalServer"
    using GetDashboardData_composition [of svc_contacts_down 1 insertionSort] sd
    by simp
  show ?thesis
    using d1 d2 d3 sd stats_svc_contacts_flaky feed_svc_contacts_flaky stats_svc_degraded
      feed_svc_degraded
    by (simp add: dashboard_flaky_def svc_contacts_down_def contacts_down_def)
qed

text \<open>
  The claim C6 as stated fails for an owner whose contact repository fails its queries while
  the other three answer: the composition returns the error of the statistics step, and no
  snapshot.
\<close>

theorem GetDashboardData_composition_counterexample:
  "ContactRepository.CountByUserID contacts_down 1 = Inl RepositoryError \<and>
   ContactRepository.CountByType contacts_down 1 ContactTypeClient = Inl RepositoryError \<and>
   ContactRepository.GetByUserID contacts_down 1
     (ContactListFilter_zero\<lparr>ContactListFilter.Limit := 5\<rparr>) = Inl RepositoryError \<and>
   GetDashboardData insertionSort svc_contacts_down 1 = Inl ErrInternalServer"
  by (simp add: GetDashboardData_def GetUserStats_def statsContacts_def bind_res_def
      orErrInternalServer_def svc_contacts_down_def contacts_down_def)

section \<open>The order of the feed\<close>

text \<open>
  C4, as the code has it. \<^verbatim>\<open>sortActivitiesByDate\<close> sorts with \<^verbatim>\<open>sort.Slice\<close>, newest first:
  when \<^verbatim>\<open>sort.Slice\<close> meets its contract, the result is a permutation of the events in which
  no event is newer than one before it. The order among events of the same instant is
  not determined by this (\<^verbatim>\<open>sort.Slice\<close> is not a stable sort).
\<close>

theorem sortActivitiesByDate_descending:
  assumes "sort_Slice_contract sort_Slice"
  shows "mset (sortActivitiesByDate sort_Slice activities) = mset activities \<and>
         (\<forall>i j. i < j \<and> j < length (sortActivitiesByDate sort_Slice activities) \<longrightarrow>
            UserActivity.CreatedAt (sortActivitiesByDate sort_Slice activities ! j)
              \<le> UserActivity.CreatedAt (sortActivitiesByDate sort_Slice activities ! i))"
  using sortActivitiesByDate_contract [OF assms, of activities]
  by (simp add: sorted_wrt_iff_nth_less)

lemma sorted_bulk_events:
  "map UserActivity.ID (sortActivitiesByDate insertionSort bulk_events)
     = [13, 1, 2, 3, 4, 5, 6, 7, 8, 9, 10, 11, 12]"
  by (simp add: sortActivitiesByDate_def insertionSort_def bulk_events_def contact_event_def
      time_After_def)

theorem sortActivitiesByDate_descending_witness:
  "sort_Slice_contract (insertionSort :: UserActivity sort_Slice) \<and>
   mset (sortActivitiesByDate insertionSort bulk_events) = mset bulk_events \<and>
   map UserActivity.ID (sortActivitiesByDate insertionSort bulk_events)
     = [13, 1, 2, 3, 4, 5, 6, 7, 8, 9, 10, 11, 12]"
  using sortActivitiesByDate_descending [OF insertionSort_contract, of bulk_events]
    insertionSort_contract sorted_bulk_events
  by simp

text \<open>
  On the fixtures of the other sections, which have at most 12 events, \<^verbatim>\<open>sort.Slice\<close> as
  transcribed above and the insertion sort return the same feed.
\<close>

lemma fixtures_sorted_alike:
  "GetRecentActivities go_sort_Slice svc_up 1 0 = GetRecentActivities insertionSort svc_up 1 0 \<and>
   GetRecentActivities go_sort_Slice svc_up 1 2 = GetRecentActivities insertionSort svc_up 1 2 \<and>
   GetDashboardData go_sort_Slice svc_contacts_flaky 1
     = GetDashboardData insertionSort svc_contacts_flaky 1"
  by code_simp

text \<open>
  The claim C4 as stated fails on thirteen events of which the first twelve share their
  instant: \<^verbatim>\<open>sort.Slice\<close> moves the newest event to the front and, partitioning around the
  seventh event, brings it before the first six and the second event to the end. The feed
  that \<^verbatim>\<open>GetRecentActivities\<close> returns for the owner of these contacts has that order.
\<close>

theorem sortActivitiesByDate_stable_counterexample:
  "map UserActivity.ID bulk_events = [1, 2, 3, 4, 5, 6, 7, 8, 9, 10, 11, 12, 13] \<and>
   map UserActivity.CreatedAt bulk_events
     = [5000, 5000, 5000, 5000, 5000, 5000, 5000, 5000, 5000, 5000, 5000, 5000, 9000] \<and>
   sortActivitiesByDate go_sort_Slice bulk_events = bulk_feed \<and>
   map UserActivity.ID bulk_feed = [13, 7, 3, 4, 5, 6, 1, 8, 9, 10, 11, 12, 2] \<and>
   GetRecentActivities go_sort_Slice svc_bulk 1 20
     = Inr \<lparr>Activities = bulk_feed, Count = 13\<rparr>"
  by code_simp

end
